theory Spec2Isabelle
  imports Complex_Main "HOL-Library.Sublist"
begin

section \<open>Data model of \<open>gdsfactory/technology/layer_stack.py\<close>\<close>

text \<open>
  The field \<open>LayerLevel.layer\<close> is declared \<open>kf.LayerEnum | tuple[int, int] | None\<close>.
  A \<open>LayerEnum\<close> is a member of an \<open>int\<close>-valued enum: its value is the index of the
  layer in the layout of the kernel, and \<open>layer[0]\<close>, \<open>layer[1]\<close> read its GDSII layer
  number and datatype. A tuple is the pair (layer number, datatype).

  The two tests of the source differ. \<open>if level.layer\<close> is Python's truth test: false
  for \<open>None\<close> and, the enum being an \<open>int\<close>, for the member whose index is 0; a pair
  is always true. \<open>layer is None\<close> is false for every layer that is given.

  As a key of a dict a \<open>LayerEnum\<close> is its index (it hashes and compares as the
  \<open>int\<close>), a tuple is itself, and \<open>None\<close> is itself.

  The float fields are kept in an arbitrary type \<open>'f\<close> that only has to offer
  \<open>+\<close>, \<open>-\<close> and \<open>0\<close>: no law of arithmetic is used anywhere below, so every
  statement holds for whatever addition and subtraction the float type really has.
  A float is true in a condition exactly when it is not \<open>0\<close>.
\<close>

datatype layer_spec = LayerEnum nat int int | LayerTuple int int

fun layer_true :: "layer_spec option \<Rightarrow> bool" where
  "layer_true None = False"
| "layer_true (Some (LayerEnum index number dtype)) = (index \<noteq> 0)"
| "layer_true (Some (LayerTuple number dtype)) = True"

fun layer_item0 :: "layer_spec \<Rightarrow> int" where
  "layer_item0 (LayerEnum index number dtype) = number"
| "layer_item0 (LayerTuple number dtype) = number"

fun layer_item1 :: "layer_spec \<Rightarrow> int" where
  "layer_item1 (LayerEnum index number dtype) = dtype"
| "layer_item1 (LayerTuple number dtype) = dtype"

datatype dict_key = IndexKey nat | TupleKey int int | NoneKey

fun key_of :: "layer_spec option \<Rightarrow> dict_key" where
  "key_of None = NoneKey"
| "key_of (Some (LayerEnum index number dtype)) = IndexKey index"
| "key_of (Some (LayerTuple number dtype)) = TupleKey number dtype"

datatype layer_kind = Grow | Etch | Implant | Background

text \<open>
  \<open>LayerLevel\<close>: the fields that the functions below read. The remaining fields of the
  class (name, tolerances, width_to_z, z_to_bias, mesh_order, mode, resistivity, bias,
  info, doping, orientation) are metadata that none of these functions touches.
\<close>

record 'f LayerLevel =
  layer :: "layer_spec option"
  thickness :: 'f
  zmin :: 'f
  material :: "string option"
  sidewall_angle :: 'f
  layer_type :: layer_kind
  into :: "string list option"
  derived_layer :: "(int \<times> int) option"

text \<open>
  \<open>LayerStack.layers\<close> is a \<open>dict[str, LayerLevel]\<close>: insertion ordered, keys unique.
  It is an association list here; uniqueness of the keys is the hypothesis
  \<open>distinct (map fst (layers s))\<close> wherever a statement depends on it.
\<close>

record 'f LayerStack =
  layers :: "(string \<times> 'f LayerLevel) list"

datatype key = NameKey string

datatype error =
    KeyError key
  | ValueError string "string list"
  | TypeError
  | NameError

text \<open>\<open>d[k]\<close> on the plain dict \<open>layers\<close>: a missing key raises \<open>KeyError\<close>.\<close>

definition dict_getitem :: "(string \<times> 'v) list \<Rightarrow> string \<Rightarrow> error + 'v" where
  "dict_getitem d k = (case map_of d k of None \<Rightarrow> Inl (KeyError (NameKey k)) | Some v \<Rightarrow> Inr v)"

text \<open>\<open>LayerStack.__getitem__\<close>: a missing key raises \<open>ValueError\<close> listing all names.\<close>

definition getitem :: "'f LayerStack \<Rightarrow> string \<Rightarrow> error + 'f LayerLevel" where
  "getitem self k =
     (if k \<notin> set (map fst (layers self)) then Inl (ValueError k (map fst (layers self)))
      else dict_getitem (layers self) k)"

text \<open>\<open>level.into or []\<close>\<close>

definition into_or_empty :: "'f LayerLevel \<Rightarrow> string list" where
  "into_or_empty level = (case into level of None \<Rightarrow> [] | Some xs \<Rightarrow> xs)"

section \<open>Etch resolution\<close>

text \<open>
  \<open>unetched_layers_dict\<close> is a \<open>defaultdict(list)\<close>: keys in order of first insertion.
  \<open>d[k].append(v)\<close> creates the entry \<open>[v]\<close> at the end when \<open>k\<close> is new.
\<close>

type_synonym etched_dict = "(string \<times> string list) list"

fun dict_append :: "etched_dict \<Rightarrow> string \<Rightarrow> string \<Rightarrow> etched_dict" where
  "dict_append [] k v = [(k, [v])]"
| "dict_append ((k', vs) # d) k v =
     (if k' = k then (k', vs @ [v]) # d else (k', vs) # dict_append d k v)"

text \<open>
  The names selected by the two list comprehensions that open both passes; their
  condition is \<open>level.layer and level.layer_type == kind\<close>.
\<close>

definition names_of_kind :: "layer_kind \<Rightarrow> (string \<times> 'f LayerLevel) list \<Rightarrow> string list" where
  "names_of_kind kind ls =
     map fst (filter (\<lambda>(layer_name, level). layer_true (layer level) \<and> layer_type level = kind) ls)"

subsection \<open>The pass inside \<open>get_component_with_derived_layers\<close> (lines 387--406)\<close>

fun derived_into_loop ::
  "string \<Rightarrow> string list \<Rightarrow> string list \<times> etched_dict \<Rightarrow> string list \<times> etched_dict" where
  "derived_into_loop layer_name [] (unetched_layers, unetched_layers_dict) =
     (unetched_layers, unetched_layers_dict)"
| "derived_into_loop layer_name (layer_name_etched # rest) (unetched_layers, unetched_layers_dict) =
     derived_into_loop layer_name rest
       (if layer_name_etched \<in> set unetched_layers
        then remove1 layer_name_etched unetched_layers else unetched_layers,
        dict_append unetched_layers_dict layer_name_etched layer_name)"

fun derived_etch_loop ::
  "(string \<times> 'f LayerLevel) list \<Rightarrow> string list \<Rightarrow> string list \<times> etched_dict
     \<Rightarrow> error + string list \<times> etched_dict" where
  "derived_etch_loop ls [] st = Inr st"
| "derived_etch_loop ls (layer_name # rest) st =
     (case dict_getitem ls layer_name of
        Inl e \<Rightarrow> Inl e
      | Inr level \<Rightarrow>
          derived_etch_loop ls rest (derived_into_loop layer_name (into_or_empty level) st))"

definition derived_classification ::
  "'f LayerStack \<Rightarrow> error + string list \<times> etched_dict" where
  "derived_classification layer_stack =
     (let unetched_layers = names_of_kind Grow (layers layer_stack);
          etch_layers = names_of_kind Etch (layers layer_stack)
      in derived_etch_loop (layers layer_stack) etch_layers (unetched_layers, []))"

subsection \<open>The pass inside \<open>get_klayout_3d_script\<close> (lines 199--220)\<close>

fun script_into_loop ::
  "string \<Rightarrow> string list \<Rightarrow> string list \<times> etched_dict \<Rightarrow> string list \<times> etched_dict" where
  "script_into_loop layer_name [] (unetched_layers, unetched_layers_dict) =
     (unetched_layers, unetched_layers_dict)"
| "script_into_loop layer_name (layer_name_etched # rest) (unetched_layers, unetched_layers_dict) =
     script_into_loop layer_name rest
       (if layer_name_etched \<in> set unetched_layers
        then remove1 layer_name_etched unetched_layers else unetched_layers,
        dict_append unetched_layers_dict layer_name_etched layer_name)"

fun script_etch_loop ::
  "(string \<times> 'f LayerLevel) list \<Rightarrow> string list \<Rightarrow> string list \<times> etched_dict
     \<Rightarrow> error + string list \<times> etched_dict" where
  "script_etch_loop ls [] st = Inr st"
| "script_etch_loop ls (layer_name # rest) st =
     (case dict_getitem ls layer_name of
        Inl e \<Rightarrow> Inl e
      | Inr level \<Rightarrow>
          script_etch_loop ls rest (script_into_loop layer_name (into_or_empty level) st))"

definition script_classification ::
  "'f LayerStack \<Rightarrow> error + string list \<times> etched_dict" where
  "script_classification self =
     (let ls = layers self;
          unetched_layers = names_of_kind Grow ls;
          etch_layers = names_of_kind Etch ls
      in script_etch_loop ls etch_layers (unetched_layers, []))"

subsection \<open>What the classification is compared with\<close>

text \<open>The etch levels of a stack, in stack order, and the names they etch into.\<close>

definition etch_levels :: "(string \<times> 'f LayerLevel) list \<Rightarrow> (string \<times> 'f LayerLevel) list" where
  "etch_levels ls =
     filter (\<lambda>(layer_name, level). layer_true (layer level) \<and> layer_type level = Etch) ls"

definition etch_targets :: "(string \<times> 'f LayerLevel) list \<Rightarrow> string list" where
  "etch_targets ls = concat (map (\<lambda>(layer_name, level). into_or_empty level) (etch_levels ls))"

text \<open>
  \<open>etched_by\<close> as the specification words it: for a target, the names of the etch layers
  whose \<open>into\<close> references it, etch layers in stack order, one entry per reference.
\<close>

definition etched_by_spec :: "(string \<times> 'f LayerLevel) list \<Rightarrow> string \<Rightarrow> string list" where
  "etched_by_spec ls t =
     concat (map (\<lambda>(layer_name, level).
                    map (\<lambda>_. layer_name) (filter (\<lambda>t'. t' = t) (into_or_empty level)))
                 (etch_levels ls))"

text \<open>The distinct elements of a list in order of first occurrence, after those of \<open>acc\<close>.\<close>

fun first_occurrences :: "'a list \<Rightarrow> 'a list \<Rightarrow> 'a list" where
  "first_occurrences acc [] = acc"
| "first_occurrences acc (x # xs) =
     first_occurrences (if x \<in> set acc then acc else acc @ [x]) xs"

text \<open>The list stored under a key of the \<open>defaultdict\<close>, empty when the key is new.\<close>

definition etched_list :: "etched_dict \<Rightarrow> string \<Rightarrow> string list" where
  "etched_list d k = (case map_of d k of None \<Rightarrow> [] | Some vs \<Rightarrow> vs)"

section \<open>The 3D script: \<open>LayerStack.get_klayout_3d_script\<close>\<close>

text \<open>
  Python's own \<open>round(x, ndigits)\<close> and the text of a float (\<open>str(x)\<close>, which is also
  what an f-string prints) are not part of the repository: they are the parameters
  \<open>rnd\<close> and \<open>fmt\<close> of everything below. Integers are printed in decimal.
\<close>

definition nl :: string where
  "nl = [CHR 0x0A]"

definition quote :: string where
  "quote = [CHR 0x27]"

fun str_nat :: "nat \<Rightarrow> string" where
  "str_nat n =
     (if n < 10 then [''0123456789'' ! n]
      else str_nat (n div 10) @ [''0123456789'' ! (n mod 10)])"

declare str_nat.simps [simp del]

definition str_int :: "int \<Rightarrow> string" where
  "str_int i = (if i < 0 then CHR ''-'' # str_nat (nat (- i)) else str_nat (nat i))"

text \<open>An optional string inside an f-string: \<open>None\<close> prints as the word.\<close>

definition str_opt :: "string option \<Rightarrow> string" where
  "str_opt m = (case m of None \<Rightarrow> ''None'' | Some s \<Rightarrow> s)"

text \<open>\<open>sep.join(xs)\<close> and \<open>s.split(c)\<close>\<close>

fun join :: "string \<Rightarrow> string list \<Rightarrow> string" where
  "join sep [] = []"
| "join sep [x] = x"
| "join sep (x # y # ys) = x @ sep @ join sep (y # ys)"

fun split_on :: "char \<Rightarrow> string \<Rightarrow> string list" where
  "split_on c [] = [[]]"
| "split_on c (x # xs) =
     (if x = c then [] # split_on c xs
      else (case split_on c xs of [] \<Rightarrow> [[x]] | w # ws \<Rightarrow> (x # w) # ws))"

text \<open>\<open>rnd_pl = len(str(dbu).split(".")[-1])\<close> (line 254)\<close>

definition rnd_pl :: "('f \<Rightarrow> string) \<Rightarrow> 'f \<Rightarrow> nat" where
  "rnd_pl fmt dbu = length (last (split_on CHR ''.'' (fmt dbu)))"

text \<open>
  The optional \<open>layer_views\<close> collaborator: \<open>get_from_tuple(layer)\<close> gives display
  properties, which may have a \<open>color\<close> with a \<open>fill\<close> and a \<open>frame\<close>.
\<close>

type_synonym layer_views = "layer_spec \<Rightarrow> (string \<times> string) option"

text \<open>
  The text of one \<open>z(...)\<close> statement. The source builds it three times with the same
  template (lines 275--293, 299--318, 333--350): the head up to the label, then, when
  \<open>layer_views\<close> is given, a comma and the colour tokens, then the closing parenthesis.
\<close>

definition z_head :: "string \<Rightarrow> string \<Rightarrow> string \<Rightarrow> string \<Rightarrow> string" where
  "z_head nm zstart zstop label =
     ''z('' @ nm @ '', '' @ ''zstart: '' @ zstart @ '', '' @ ''zstop: '' @ zstop @ '', ''
       @ ''name: '' @ quote @ label @ quote"

definition color_tokens :: "layer_views option \<Rightarrow> layer_spec \<Rightarrow> string" where
  "color_tokens layer_views ly =
     (case layer_views of
        None \<Rightarrow> []
      | Some get_from_tuple \<Rightarrow>
          '', '' @
          (case get_from_tuple ly of
             None \<Rightarrow> []
           | Some (fill, frame) \<Rightarrow>
               if fill = frame then ''color: '' @ fill
               else ''fill: '' @ fill @ '', '' @ ''frame: '' @ frame))"

definition z_txt ::
  "layer_views option \<Rightarrow> layer_spec \<Rightarrow> string \<Rightarrow> string \<Rightarrow> string \<Rightarrow> string \<Rightarrow> string" where
  "z_txt layer_views ly nm zstart zstop label =
     z_head nm zstart zstop label @ color_tokens layer_views ly @ '')''"

definition layer_label :: "string \<Rightarrow> string option \<Rightarrow> layer_spec \<Rightarrow> string" where
  "layer_label nm mat ly =
     nm @ '': '' @ str_opt mat @ '' '' @ str_int (layer_item0 ly) @ ''/''
       @ str_int (layer_item1 ly)"

subsection \<open>Definitions (lines 222--247)\<close>

definition input_definitions :: "(string \<times> 'f LayerLevel) list \<Rightarrow> string list" where
  "input_definitions ls =
     concat (map (\<lambda>(layer_name, level).
                    case layer level of
                      None \<Rightarrow> []
                    | Some ly \<Rightarrow>
                        if layer_true (Some ly)
                        then [layer_name @ '' = input('' @ str_int (layer_item0 ly) @ '', ''
                                @ str_int (layer_item1 ly) @ '')'']
                        else [])
                 ls)"

definition unetched_definitions :: "etched_dict \<Rightarrow> string list" where
  "unetched_definitions unetched_layers_dict =
     map (\<lambda>(layer_name_etched, etching_layers).
            ''unetched_'' @ layer_name_etched @ '' = '' @ layer_name_etched @ '' - ''
              @ join '' - '' etching_layers)
         unetched_layers_dict"

definition slab_name :: "string \<Rightarrow> string \<Rightarrow> nat \<Rightarrow> string" where
  "slab_name layer1 layer_name i = ''slab_'' @ layer1 @ ''_'' @ layer_name @ ''_'' @ str_nat i"

definition slab_definitions :: "(string \<times> 'f LayerLevel) list \<Rightarrow> string list" where
  "slab_definitions ls =
     concat (map (\<lambda>(layer_name, level).
                    if layer_type level = Etch
                    then map (\<lambda>(i, layer1).
                                slab_name layer1 layer_name i @ '' = '' @ layer1 @ '' &amp; ''
                                  @ layer_name)
                             (enumerate 0 (into_or_empty level))
                    else [])
                 ls)"

subsection \<open>The \<open>z\<close> statements of the levels (lines 249--319)\<close>

text \<open>
  The loop carries the local variable \<open>slab_layer_name\<close>, which line 329 reads later:
  \<open>None\<close> while it is unbound. The statements come back as a list, one text per
  \<open>out += f"{txt}\n"\<close>.
\<close>

fun slab_z_loop ::
  "('f::{plus,minus,zero} \<Rightarrow> string) \<Rightarrow> layer_views option \<Rightarrow> (string \<times> 'f LayerLevel) list
     \<Rightarrow> string \<Rightarrow> 'f LayerLevel \<Rightarrow> layer_spec \<Rightarrow> (nat \<times> string) list \<Rightarrow> string option
     \<Rightarrow> error + string list \<times> string option" where
  "slab_z_loop fmt layer_views ls layer_name level ly [] slab_layer_name =
     Inr ([], slab_layer_name)"
| "slab_z_loop fmt layer_views ls layer_name level ly ((i, layer1) # rest) slab_layer_name =
     (case dict_getitem ls layer1 of
        Inl e \<Rightarrow> Inl e
      | Inr unetched_level \<Rightarrow>
          (let unetched_zmin = zmin unetched_level;
               unetched_zmax = unetched_zmin + thickness unetched_level;
               slab_layer_name' = slab_name layer1 layer_name i;
               slab_zmin = zmin unetched_level;
               slab_zmax = unetched_zmax - thickness level;
               name = layer_label slab_layer_name' (material level) ly;
               txt = z_txt layer_views ly slab_layer_name' (fmt slab_zmin) (fmt slab_zmax) name
           in case slab_z_loop fmt layer_views ls layer_name level ly rest (Some slab_layer_name') of
                Inl e \<Rightarrow> Inl e
              | Inr (txts, s) \<Rightarrow> Inr (txt # txts, s)))"

text \<open>Lines 253--256: \<open>if dbu:\<close> holds for a float that is neither \<open>None\<close> nor zero.\<close>

definition round_dbu ::
  "('f::zero \<Rightarrow> nat \<Rightarrow> 'f) \<Rightarrow> ('f \<Rightarrow> string) \<Rightarrow> 'f option \<Rightarrow> 'f \<Rightarrow> 'f" where
  "round_dbu rnd fmt dbu z =
     (case dbu of
        None \<Rightarrow> z
      | Some d \<Rightarrow> if d \<noteq> 0 then rnd z (rnd_pl fmt d) else z)"

definition z_level ::
  "('f::{plus,minus,zero} \<Rightarrow> nat \<Rightarrow> 'f) \<Rightarrow> ('f \<Rightarrow> string) \<Rightarrow> layer_views option \<Rightarrow> 'f option
     \<Rightarrow> (string \<times> 'f LayerLevel) list \<Rightarrow> string list \<Rightarrow> string \<times> 'f LayerLevel
     \<Rightarrow> string option \<Rightarrow> error + string list \<times> string option" where
  "z_level rnd fmt layer_views dbu ls unetched_layers entry slab_layer_name =
     (case entry of (layer_name, level) \<Rightarrow>
        let zmin0 = zmin level;
            zmax0 = zmin0 + thickness level;
            zmin1 = round_dbu rnd fmt dbu zmin0;
            zmax1 = round_dbu rnd fmt dbu zmax0
        in case layer level of
             None \<Rightarrow> Inr ([], slab_layer_name)
           | Some ly \<Rightarrow>
               if layer_type level = Etch
               then slab_z_loop fmt layer_views ls layer_name level ly
                      (enumerate 0 (into_or_empty level)) slab_layer_name
               else if layer_name \<in> set unetched_layers
               then Inr ([z_txt layer_views ly layer_name (fmt zmin1) (fmt zmax1)
                            (layer_label layer_name (material level) ly)],
                         slab_layer_name)
               else Inr ([], slab_layer_name))"

fun z_loop ::
  "('f::{plus,minus,zero} \<Rightarrow> nat \<Rightarrow> 'f) \<Rightarrow> ('f \<Rightarrow> string) \<Rightarrow> layer_views option \<Rightarrow> 'f option
     \<Rightarrow> (string \<times> 'f LayerLevel) list \<Rightarrow> string list \<Rightarrow> (string \<times> 'f LayerLevel) list
     \<Rightarrow> string option \<Rightarrow> error + string list \<times> string option" where
  "z_loop rnd fmt layer_views dbu ls unetched_layers [] slab_layer_name =
     Inr ([], slab_layer_name)"
| "z_loop rnd fmt layer_views dbu ls unetched_layers (entry # rest) slab_layer_name =
     (case z_level rnd fmt layer_views dbu ls unetched_layers entry slab_layer_name of
        Inl e \<Rightarrow> Inl e
      | Inr (txts, s) \<Rightarrow>
          (case z_loop rnd fmt layer_views dbu ls unetched_layers rest s of
             Inl e \<Rightarrow> Inl e
           | Inr (txts', s') \<Rightarrow> Inr (txts @ txts', s')))"

subsection \<open>The \<open>z\<close> statements of the etched grown layers (lines 323--351)\<close>

fun unetched_z_loop ::
  "('f::{plus,minus,zero} \<Rightarrow> string) \<Rightarrow> layer_views option \<Rightarrow> (string \<times> 'f LayerLevel) list
     \<Rightarrow> string option \<Rightarrow> string list \<Rightarrow> error + string list" where
  "unetched_z_loop fmt layer_views ls slab_layer_name [] = Inr []"
| "unetched_z_loop fmt layer_views ls slab_layer_name (layer_name # rest) =
     (case dict_getitem ls layer_name of
        Inl e \<Rightarrow> Inl e
      | Inr unetched_level \<Rightarrow>
          (let unetched_zmin = zmin unetched_level;
               unetched_zmax = unetched_zmin + thickness unetched_level
           in case slab_layer_name of
                None \<Rightarrow> Inl NameError
              | Some _ \<Rightarrow>
                  (case layer unetched_level of
                     None \<Rightarrow> Inl TypeError
                   | Some ly \<Rightarrow>
                       (let unetched_layer_name = ''unetched_'' @ layer_name;
                            name = layer_label unetched_layer_name (material unetched_level) ly;
                            txt = z_txt layer_views ly unetched_layer_name
                                    (fmt unetched_zmin) (fmt unetched_zmax) name
                        in case unetched_z_loop fmt layer_views ls slab_layer_name rest of
                             Inl e \<Rightarrow> Inl e
                           | Inr txts \<Rightarrow> Inr (txt # txts)))))"

subsection \<open>The whole script\<close>

record script_sections =
  inputs :: "string list"
  unetched_defs :: "string list"
  slab_defs :: "string list"
  z_statements :: "string list"
  unetched_z_statements :: "string list"

definition script_parts ::
  "('f::{plus,minus,zero} \<Rightarrow> nat \<Rightarrow> 'f) \<Rightarrow> ('f \<Rightarrow> string) \<Rightarrow> 'f LayerStack
     \<Rightarrow> layer_views option \<Rightarrow> 'f option \<Rightarrow> error + script_sections" where
  "script_parts rnd fmt self layer_views dbu =
     (let ls = layers self in
      case script_classification self of
        Inl e \<Rightarrow> Inl e
      | Inr (unetched_layers, unetched_layers_dict) \<Rightarrow>
          (case z_loop rnd fmt layer_views dbu ls unetched_layers ls None of
             Inl e \<Rightarrow> Inl e
           | Inr (ztxts, slab_layer_name) \<Rightarrow>
               (case unetched_z_loop fmt layer_views ls slab_layer_name
                       (map fst unetched_layers_dict) of
                  Inl e \<Rightarrow> Inl e
                | Inr utxts \<Rightarrow>
                    Inr \<lparr>inputs = input_definitions ls,
                         unetched_defs = unetched_definitions unetched_layers_dict,
                         slab_defs = slab_definitions ls,
                         z_statements = ztxts,
                         unetched_z_statements = utxts\<rparr>)))"

text \<open>Every statement after the inputs is written as \<open>out += f"{txt}\n"\<close>.\<close>

definition lines_text :: "string list \<Rightarrow> string" where
  "lines_text txts = concat (map (\<lambda>txt. txt @ nl) txts)"

definition render :: "script_sections \<Rightarrow> string" where
  "render p =
     join nl (inputs p) @ nl @ nl
       @ lines_text (unetched_defs p) @ nl
       @ lines_text (slab_defs p) @ nl
       @ lines_text (z_statements p) @ nl
       @ lines_text (unetched_z_statements p)"

definition get_klayout_3d_script ::
  "('f::{plus,minus,zero} \<Rightarrow> nat \<Rightarrow> 'f) \<Rightarrow> ('f \<Rightarrow> string) \<Rightarrow> 'f LayerStack
     \<Rightarrow> layer_views option \<Rightarrow> 'f option \<Rightarrow> error + string" where
  "get_klayout_3d_script rnd fmt self layer_views dbu =
     (case script_parts rnd fmt self layer_views dbu of
        Inl e \<Rightarrow> Inl e
      | Inr p \<Rightarrow> Inr (render p))"

section \<open>The accessors of \<open>LayerStack\<close> (lines 121--161)\<close>

text \<open>
  The returned dicts are keyed by \<open>level.layer\<close>, which may be \<open>None\<close>; a later level
  with the same key overwrites an earlier one. \<open>LayerLevel\<close> declares no attribute
  \<open>operator\<close>, so \<open>hasattr(level, "operator")\<close> is false for every level. The condition
  of line 128, \<open>layer and level.thickness\<close>, is the truth test of the layer and of the
  float.
\<close>

definition hasattr_operator :: "'f LayerLevel \<Rightarrow> bool" where
  "hasattr_operator level = False"

fun layer_to_thickness_loop ::
  "'f::zero LayerLevel list \<Rightarrow> (dict_key \<rightharpoonup> 'f) \<Rightarrow> (dict_key \<rightharpoonup> 'f)" where
  "layer_to_thickness_loop [] layer_to_thickness = layer_to_thickness"
| "layer_to_thickness_loop (level # rest) layer_to_thickness =
     layer_to_thickness_loop rest
       (if layer_true (layer level) \<and> thickness level \<noteq> 0
        then layer_to_thickness(key_of (layer level) \<mapsto> thickness level)
        else if hasattr_operator level
        then layer_to_thickness(key_of (layer level) \<mapsto> thickness level)
        else layer_to_thickness)"

definition get_layer_to_thickness :: "'f::zero LayerStack \<Rightarrow> (dict_key \<rightharpoonup> 'f)" where
  "get_layer_to_thickness self = layer_to_thickness_loop (map snd (layers self)) Map.empty"

definition get_layer_to_zmin :: "'f::zero LayerStack \<Rightarrow> (dict_key \<rightharpoonup> 'f)" where
  "get_layer_to_zmin self =
     fold (\<lambda>level d. if thickness level \<noteq> 0 then d(key_of (layer level) \<mapsto> zmin level) else d)
          (map snd (layers self)) Map.empty"

definition get_layer_to_material ::
  "'f::zero LayerStack \<Rightarrow> (dict_key \<rightharpoonup> string option)" where
  "get_layer_to_material self =
     fold (\<lambda>level d. if thickness level \<noteq> 0 then d(key_of (layer level) \<mapsto> material level) else d)
          (map snd (layers self)) Map.empty"

definition get_layer_to_sidewall_angle :: "'f::zero LayerStack \<Rightarrow> (dict_key \<rightharpoonup> 'f)" where
  "get_layer_to_sidewall_angle self =
     fold (\<lambda>level d. if thickness level \<noteq> 0
                      then d(key_of (layer level) \<mapsto> sidewall_angle level) else d)
          (map snd (layers self)) Map.empty"

section \<open>The derived geometry: \<open>get_component_with_derived_layers\<close> (lines 378--457)\<close>

text \<open>
  The geometry kernel is outside the repository. A region is the set of its points, a
  polygon is a region, and \<open>kf.kdb.Region(polygons)\<close> is the union of the polygons.
  A component holds its polygons per layer index of the kernel. The result
  \<open>component_derived\<close> is written only through \<open>shapes(index).insert(...)\<close>; it is the
  list of these insertions, oldest first. The ports, which the last line copies over,
  are left out.
\<close>

type_synonym 'p component = "nat \<rightharpoonup> 'p set list"

type_synonym 'p shapes = "(nat \<times> 'p set) list"

definition Region :: "'p set list \<Rightarrow> 'p set" where
  "Region polygons = \<Union> (set polygons)"

text \<open>
  Modelled from the spec: \<open>Component.get_polygons\<close> of \<open>gdsfactory/component.py\<close>, the
  "polygons-per-layer snapshot" of section 4.3, in which a layer that is "not present in
  kernel geometry is treated as empty, not an error": a \<open>defaultdict(list)\<close> keyed by the
  layer index of the kernel. Reading a key that it does not have gives the empty list
  and enters the key; \<open>in\<close> and \<open>keys()\<close> see the keys entered so far.
\<close>

type_synonym 'p polygons_per_layer = "dict_key \<rightharpoonup> 'p set list"

definition get_polygons :: "'p component \<Rightarrow> 'p polygons_per_layer" where
  "get_polygons component k = (case k of IndexKey index \<Rightarrow> component index | _ \<Rightarrow> None)"

definition defaultdict_getitem ::
  "'p polygons_per_layer \<Rightarrow> dict_key \<Rightarrow> 'p set list \<times> 'p polygons_per_layer" where
  "defaultdict_getitem d k =
     (case d k of None \<Rightarrow> ([], d(k \<mapsto> [])) | Some polygons \<Rightarrow> (polygons, d))"

text \<open>
  Modelled from the spec: \<open>boolean_operations\<close> of \<open>gdsfactory/component.py\<close>, the table
  of the region operations; section 6 asks for "polygon-region values supporting boolean
  union/intersection/difference". The operators are those of the kernel's \<open>Region\<close>. A
  Python list has none of them, so an operation whose operand is a list of polygons
  that was not turned into a \<open>Region\<close> raises \<open>TypeError\<close>.
\<close>

datatype 'p operand = Polygons "'p set list" | RegionValue "'p set"

fun boolean_and :: "'p operand \<Rightarrow> 'p operand \<Rightarrow> error + 'p set" where
  "boolean_and (RegionValue r1) (RegionValue r2) = Inr (r1 \<inter> r2)"
| "boolean_and _ _ = Inl TypeError"

fun boolean_not :: "'p operand \<Rightarrow> 'p operand \<Rightarrow> error + 'p set" where
  "boolean_not (RegionValue r1) (RegionValue r2) = Inr (r1 - r2)"
| "boolean_not _ _ = Inl TypeError"

text \<open>
  \<open>component_derived.shapes(layer_index)\<close>: the kernel takes a layer index, which a
  \<open>LayerEnum\<close> is; a tuple or \<open>None\<close> is no index.
\<close>

fun shapes_index :: "dict_key \<Rightarrow> error + nat" where
  "shapes_index (IndexKey index) = Inr index"
| "shapes_index _ = Inl TypeError"

text \<open>
  Modelled from the spec: \<open>Component.extract\<close> of \<open>gdsfactory/component.py\<close>, the
  "extract polygons for a set of layer ids" capability of section 6: a new component
  that holds the polygons of the listed layers, "copied as-is" (section 4.3 (a)).
\<close>

definition Component_extract :: "'p component \<Rightarrow> dict_key list \<Rightarrow> 'p shapes" where
  "Component_extract component layer_numbers =
     concat (map (\<lambda>k. case k of
                         IndexKey index \<Rightarrow>
                           (case component index of
                              None \<Rightarrow> []
                            | Some polygons \<Rightarrow> map (\<lambda>polygon. (index, polygon)) polygons)
                       | _ \<Rightarrow> [])
                 layer_numbers)"

text \<open>Lines 412--416; the test is \<open>layer in component_layers\<close>.\<close>

fun unetched_layer_numbers ::
  "(string \<times> 'f LayerLevel) list \<Rightarrow> 'p polygons_per_layer \<Rightarrow> string list
     \<Rightarrow> error + dict_key list" where
  "unetched_layer_numbers ls polygons_per_layer [] = Inr []"
| "unetched_layer_numbers ls polygons_per_layer (layer_name # rest) =
     (case dict_getitem ls layer_name of
        Inl e \<Rightarrow> Inl e
      | Inr level \<Rightarrow>
          (case unetched_layer_numbers ls polygons_per_layer rest of
             Inl e \<Rightarrow> Inl e
           | Inr numbers \<Rightarrow>
               Inr (if polygons_per_layer (key_of (layer level)) \<noteq> None
                    then key_of (layer level) # numbers else numbers)))"

text \<open>Lines 423--424.\<close>

fun insert_polygons :: "'p shapes \<Rightarrow> dict_key \<Rightarrow> 'p set list \<Rightarrow> error + 'p shapes" where
  "insert_polygons component_derived layer_index [] = Inr component_derived"
| "insert_polygons component_derived layer_index (polygon # rest) =
     (case shapes_index layer_index of
        Inl e \<Rightarrow> Inl e
      | Inr index \<Rightarrow> insert_polygons (component_derived @ [(index, polygon)]) layer_index rest)"

text \<open>
  Lines 429--447, the loop over the etching layers of one etched layer. Its state is
  the component, the variable \<open>layer_index\<close> and the region \<open>polygons_to_remove\<close>.
  \<open>get_layer\<close> (of \<open>gdsfactory/pdk.py\<close>) resolves a layer to its index in the kernel;
  it is a parameter. Line 433 reads a key that the dict has, so the dict stays as it is.
\<close>

fun etching_loop ::
  "(layer_spec \<Rightarrow> nat) \<Rightarrow> (string \<times> 'f LayerLevel) list \<Rightarrow> 'p polygons_per_layer
     \<Rightarrow> 'p set list \<Rightarrow> string list \<Rightarrow> 'p shapes \<times> dict_key \<times> 'p set
     \<Rightarrow> error + 'p shapes \<times> dict_key \<times> 'p set" where
  "etching_loop get_layer ls polygons_per_layer polygons [] st = Inr st"
| "etching_loop get_layer ls polygons_per_layer polygons (etching_layers # rest)
       (component_derived, layer_index, polygons_to_remove) =
     (case dict_getitem ls etching_layers of
        Inl e \<Rightarrow> Inl e
      | Inr etching_level \<Rightarrow>
          (case layer etching_level of
             None \<Rightarrow>
               etching_loop get_layer ls polygons_per_layer polygons rest
                 (component_derived, layer_index, polygons_to_remove)
           | Some ly \<Rightarrow>
               (case polygons_per_layer (key_of (Some ly)) of
                  None \<Rightarrow>
                    etching_loop get_layer ls polygons_per_layer polygons rest
                      (component_derived, layer_index, polygons_to_remove)
                | Some B_polys \<Rightarrow>
                    (let layer_index' = get_layer ly;
                         r2 = Region B_polys;
                         polygons_to_remove' = polygons_to_remove \<union> r2
                     in case derived_layer etching_level of
                          None \<Rightarrow>
                            etching_loop get_layer ls polygons_per_layer polygons rest
                              (component_derived, IndexKey layer_index', polygons_to_remove')
                        | Some _ \<Rightarrow>
                            (case boolean_and (RegionValue (Region polygons))
                                    (RegionValue (Region B_polys)) of
                               Inl e \<Rightarrow> Inl e
                             | Inr r \<Rightarrow>
                                 etching_loop get_layer ls polygons_per_layer polygons rest
                                   (component_derived @ [(layer_index', r)],
                                    IndexKey layer_index', polygons_to_remove'))))))"

text \<open>
  Lines 420--454, the loop over the etched grown layers. Line 453 hands the list
  \<open>polygons\<close> itself to the operation, where lines 443--444 convert both operands.
\<close>

fun unetched_loop ::
  "(layer_spec \<Rightarrow> nat) \<Rightarrow> (string \<times> 'f LayerLevel) list \<Rightarrow> etched_dict
     \<Rightarrow> 'p shapes \<times> 'p polygons_per_layer \<Rightarrow> error + 'p shapes" where
  "unetched_loop get_layer ls [] (component_derived, polygons_per_layer) = Inr component_derived"
| "unetched_loop get_layer ls ((unetched_layer_name, unetched_layers) # rest)
       (component_derived, polygons_per_layer) =
     (case dict_getitem ls unetched_layer_name of
        Inl e \<Rightarrow> Inl e
      | Inr unetched_level \<Rightarrow>
          (let layer_index = key_of (layer unetched_level);
               (polygons, polygons_per_layer1) = defaultdict_getitem polygons_per_layer layer_index
           in case insert_polygons component_derived layer_index polygons of
                Inl e \<Rightarrow> Inl e
              | Inr component_derived1 \<Rightarrow>
                  (case etching_loop get_layer ls polygons_per_layer1 polygons unetched_layers
                          (component_derived1, layer_index, {}) of
                     Inl e \<Rightarrow> Inl e
                   | Inr (component_derived2, layer_index2, polygons_to_remove) \<Rightarrow>
                       (let (polygons', polygons_per_layer2) =
                              defaultdict_getitem polygons_per_layer1
                                (key_of (layer unetched_level))
                        in case boolean_not (Polygons polygons') (RegionValue polygons_to_remove) of
                             Inl e \<Rightarrow> Inl e
                           | Inr r \<Rightarrow>
                               (case shapes_index layer_index2 of
                                  Inl e \<Rightarrow> Inl e
                                | Inr index \<Rightarrow>
                                    unetched_loop get_layer ls rest
                                      (component_derived2 @ [(index, r)],
                                       polygons_per_layer2))))))"

definition get_component_with_derived_layers ::
  "(layer_spec \<Rightarrow> nat) \<Rightarrow> 'p component \<Rightarrow> 'f LayerStack \<Rightarrow> error + 'p shapes" where
  "get_component_with_derived_layers get_layer component layer_stack =
     (case derived_classification layer_stack of
        Inl e \<Rightarrow> Inl e
      | Inr (unetched_layers, unetched_layers_dict) \<Rightarrow>
          (let polygons_per_layer = get_polygons component in
           case unetched_layer_numbers (layers layer_stack) polygons_per_layer unetched_layers of
             Inl e \<Rightarrow> Inl e
           | Inr numbers \<Rightarrow>
               unetched_loop get_layer (layers layer_stack) unetched_layers_dict
                 (Component_extract component numbers, polygons_per_layer)))"

text \<open>The region that a component holds on one layer index.\<close>

definition shapes_region :: "'p shapes \<Rightarrow> nat \<Rightarrow> 'p set" where
  "shapes_region component_derived i =
     \<Union> (set (map snd (filter (\<lambda>(index, r). index = i) component_derived)))"

definition polygons_region :: "'p component \<Rightarrow> nat \<Rightarrow> 'p set" where
  "polygons_region component i =
     (case component i of None \<Rightarrow> {} | Some polygons \<Rightarrow> \<Union> (set polygons))"

section \<open>Notation for the proofs\<close>

text \<open>One round of the etch loop, and the layer number that one grow level contributes.\<close>

abbreviation into_step ::
  "string \<times> 'f LayerLevel \<Rightarrow> string list \<times> etched_dict \<Rightarrow> string list \<times> etched_dict" where
  "into_step \<equiv> \<lambda>(e, level). derived_into_loop e (into_or_empty level)"

abbreviation number_of ::
  "'p polygons_per_layer \<Rightarrow> string \<times> 'f LayerLevel \<Rightarrow> dict_key list" where
  "number_of polygons_per_layer \<equiv>
     \<lambda>(n, level). if polygons_per_layer (key_of (layer level)) \<noteq> None
                   then [key_of (layer level)] else []"

section \<open>Example inputs\<close>

text \<open>
  \<open>LayerLevel(thickness=..., zmin=...)\<close>: every other field at its declared default.
\<close>

definition LayerLevel_init :: "'f::zero \<Rightarrow> 'f \<Rightarrow> 'f LayerLevel" where
  "LayerLevel_init th z =
     \<lparr>layer = None, thickness = th, zmin = z, material = None, sidewall_angle = 0,
      layer_type = Grow, into = None, derived_layer = None\<rparr>"

text \<open>
  A grown layer \<open>L\<close> on (1, 0) from 0 to 1 and an etch layer \<open>E\<close> on (2, 0), 0.2 thick,
  that etches into \<open>L\<close>: the stack of the last script property of section 8.
\<close>

definition level_L :: "real LayerLevel" where
  "level_L = (LayerLevel_init 1 0)\<lparr>layer := Some (LayerTuple 1 0)\<rparr>"

definition level_E :: "real LayerLevel" where
  "level_E = (LayerLevel_init (2 / 10) 0)
               \<lparr>layer := Some (LayerTuple 2 0), layer_type := Etch, into := Some [''L'']\<rparr>"

definition stack_LE :: "real LayerStack" where
  "stack_LE = \<lparr>layers = [(''L'', level_L), (''E'', level_E)]\<rparr>"

text \<open>
  Stand-ins for Python's \<open>round\<close> and \<open>str\<close> where an example needs closed terms:
  no rounding, and the integer part in decimal.
\<close>

definition rnd_none :: "real \<Rightarrow> nat \<Rightarrow> real" where
  "rnd_none x ndigits = x"

definition fmt_floor :: "real \<Rightarrow> string" where
  "fmt_floor x = str_int \<lfloor>x\<rfloor>"

text \<open>An etch layer whose \<open>into\<close> names a layer that the stack does not have.\<close>

definition stack_dangling :: "real LayerStack" where
  "stack_dangling = \<lparr>layers = [(''E'', level_E\<lparr>into := Some [''X'']\<rparr>)]\<rparr>"

text \<open>The five sections of the script of \<open>stack_LE\<close> without \<open>layer_views\<close>.\<close>

definition parts_LE :: "(real \<Rightarrow> string) \<Rightarrow> script_sections" where
  "parts_LE fmt =
     \<lparr>inputs = [''L = input(1, 0)'', ''E = input(2, 0)''],
      unetched_defs = [''unetched_L = L - E''],
      slab_defs = [''slab_L_E_0 = L &amp; E''],
      z_statements =
        [z_txt None (LayerTuple 2 0) ''slab_L_E_0'' (fmt 0) (fmt (0 + 1 - 2 / 10))
           ''slab_L_E_0: None 2/0''],
      unetched_z_statements =
        [z_txt None (LayerTuple 1 0) ''unetched_L'' (fmt 0) (fmt (0 + 1))
           ''unetched_L: None 1/0'']\<rparr>"

text \<open>
  A stack in which rounding to hundredths shows: a grown layer \<open>G\<close> that nothing etches
  and a grown layer \<open>L\<close>, both from 0.125 to 1.125, and the etch layer \<open>E\<close> into \<open>L\<close>.
\<close>

definition level_G :: "real LayerLevel" where
  "level_G = (LayerLevel_init 1 (1 / 8))\<lparr>layer := Some (LayerTuple 3 0)\<rparr>"

definition stack_round :: "real LayerStack" where
  "stack_round =
     \<lparr>layers = [(''G'', level_G), (''L'', level_L\<lparr>zmin := 1 / 8\<rparr>), (''E'', level_E)]\<rparr>"

text \<open>
  A stack with whole bounds, which \<open>fmt_floor\<close> prints as they are: \<open>L\<close> from 2 to 7,
  etched by \<open>E\<close> (1 thick) and by \<open>F\<close> (3 thick, on a \<open>LayerEnum\<close> of index 4 that stands
  for (5, 0)); \<open>F\<close> also names \<open>M\<close>, from 10 to 12, after \<open>L\<close>.
\<close>

definition level_whole_L :: "real LayerLevel" where
  "level_whole_L = level_L\<lparr>zmin := 2, thickness := 5\<rparr>"

definition level_whole_E :: "real LayerLevel" where
  "level_whole_E = level_E\<lparr>thickness := 1\<rparr>"

definition level_whole_M :: "real LayerLevel" where
  "level_whole_M = level_L\<lparr>zmin := 10, thickness := 2, layer := Some (LayerTuple 3 0)\<rparr>"

definition level_whole_F :: "real LayerLevel" where
  "level_whole_F =
     level_E\<lparr>thickness := 3, layer := Some (LayerEnum 4 5 0), into := Some [''L'', ''M'']\<rparr>"

definition stack_whole :: "real LayerStack" where
  "stack_whole =
     \<lparr>layers = [(''L'', level_whole_L), (''E'', level_whole_E), (''M'', level_whole_M),
                (''F'', level_whole_F)]\<rparr>"

definition script_whole :: string where
  "script_whole =
     ''L = input(1, 0)'' @ [CHR 0x0A] @
     ''E = input(2, 0)'' @ [CHR 0x0A] @
     ''M = input(3, 0)'' @ [CHR 0x0A] @
     ''F = input(5, 0)'' @ [CHR 0x0A] @
     [CHR 0x0A] @
     ''unetched_L = L - E - F'' @ [CHR 0x0A] @
     ''unetched_M = M - F'' @ [CHR 0x0A] @
     [CHR 0x0A] @
     ''slab_L_E_0 = L &amp; E'' @ [CHR 0x0A] @
     ''slab_L_F_0 = L &amp; F'' @ [CHR 0x0A] @
     ''slab_M_F_1 = M &amp; F'' @ [CHR 0x0A] @
     [CHR 0x0A] @
     ''z(slab_L_E_0, zstart: 2, zstop: 6, name: '' @ [CHR 0x27] @ ''slab_L_E_0: None 2/0''
        @ [CHR 0x27] @ '')'' @ [CHR 0x0A] @
     ''z(slab_L_F_0, zstart: 2, zstop: 4, name: '' @ [CHR 0x27] @ ''slab_L_F_0: None 5/0''
        @ [CHR 0x27] @ '')'' @ [CHR 0x0A] @
     ''z(slab_M_F_1, zstart: 10, zstop: 9, name: '' @ [CHR 0x27] @ ''slab_M_F_1: None 5/0''
        @ [CHR 0x27] @ '')'' @ [CHR 0x0A] @
     [CHR 0x0A] @
     ''z(unetched_L, zstart: 2, zstop: 7, name: '' @ [CHR 0x27] @ ''unetched_L: None 1/0''
        @ [CHR 0x27] @ '')'' @ [CHR 0x0A] @
     ''z(unetched_M, zstart: 10, zstop: 12, name: '' @ [CHR 0x27] @ ''unetched_M: None 3/0''
        @ [CHR 0x27] @ '')'' @ [CHR 0x0A]"

text \<open>
  The same two layers on \<open>LayerEnum\<close> members of index 1 and 2, with components whose
  points are numbers: \<open>L\<close> covers 1, 2, 3 and \<open>E\<close> covers 2; the same without the
  polygons of \<open>L\<close>, and without those of \<open>E\<close>; and the polygons of \<open>L\<close> next to polygons
  on index 5, a layer that no level has. In the examples \<open>get_layer\<close> is the index of
  the enum member; no other layer is resolved there.
\<close>

definition level_L1 :: "real LayerLevel" where
  "level_L1 = (LayerLevel_init 1 0)\<lparr>layer := Some (LayerEnum 1 1 0)\<rparr>"

definition level_E2 :: "real LayerLevel" where
  "level_E2 = (LayerLevel_init (2 / 10) 0)
                \<lparr>layer := Some (LayerEnum 2 2 0), layer_type := Etch, into := Some [''L'']\<rparr>"

definition stack_enum :: "real LayerStack" where
  "stack_enum = \<lparr>layers = [(''L'', level_L1), (''E'', level_E2)]\<rparr>"

definition stack_grown :: "real LayerStack" where
  "stack_grown = \<lparr>layers = [(''L'', level_L1)]\<rparr>"

fun enum_index :: "layer_spec \<Rightarrow> nat" where
  "enum_index (LayerEnum index number dtype) = index"
| "enum_index (LayerTuple number dtype) = 0"

definition component_LE :: "nat component" where
  "component_LE = [1 \<mapsto> [{1, 2, 3}], 2 \<mapsto> [{2}]]"

definition component_E :: "nat component" where
  "component_E = [2 \<mapsto> [{2}]]"

definition component_L :: "nat component" where
  "component_L = [1 \<mapsto> [{1, 2, 3}]]"

definition component_L_other :: "nat component" where
  "component_L_other = [1 \<mapsto> [{1, 2, 3}], 5 \<mapsto> [{7}]]"

text \<open>
  A grown layer on the \<open>LayerEnum\<close> member of index 0, the first layer that the layout
  of the kernel was given; here it stands for (1, 0).
\<close>

definition level_first :: "real LayerLevel" where
  "level_first = (LayerLevel_init 1 0)\<lparr>layer := Some (LayerEnum 0 1 0)\<rparr>"

definition stack_first :: "real LayerStack" where
  "stack_first = \<lparr>layers = [(''W'', level_first)]\<rparr>"

section \<open>Properties\<close>

subsection \<open>The \<open>defaultdict\<close>\<close>

lemma map_of_dict_append:
  "map_of (dict_append d k v) k' =
     (if k' = k then Some (etched_list d k @ [v]) else map_of d k')"
  by (induction d k v rule: dict_append.induct) (auto simp: etched_list_def)

lemma etched_list_dict_append:
  "etched_list (dict_append d k v) k' =
     (if k' = k then etched_list d k @ [v] else etched_list d k')"
  by (simp add: etched_list_def map_of_dict_append)

lemma keys_dict_append:
  "map fst (dict_append d k v) = (if k \<in> set (map fst d) then map fst d else map fst d @ [k])"
  by (induction d k v rule: dict_append.induct) auto

lemma first_occurrences_append:
  "first_occurrences acc (xs @ ys) = first_occurrences (first_occurrences acc xs) ys"
  by (induction xs arbitrary: acc) auto

lemma set_first_occurrences: "set (first_occurrences acc xs) = set acc \<union> set xs"
  by (induction xs arbitrary: acc) auto

lemma distinct_first_occurrences: "distinct acc \<Longrightarrow> distinct (first_occurrences acc xs)"
  by (induction xs arbitrary: acc) auto

subsection \<open>The loop over one \<open>into\<close> list\<close>

lemma filter_absent: "t \<notin> set u \<Longrightarrow> filter (\<lambda>n. n \<noteq> t) u = u"
  by (induction u) auto

lemma remove1_distinct_filter: "distinct u \<Longrightarrow> remove1 t u = filter (\<lambda>n. n \<noteq> t) u"
  by (induction u) (auto simp: filter_absent)

lemma derived_into_loop_unetched:
  "distinct u \<Longrightarrow> fst (derived_into_loop e ts (u, d)) = filter (\<lambda>n. n \<notin> set ts) u"
proof (induction ts arbitrary: u d)
  case Nil
  then show ?case by simp
next
  case (Cons t ts)
  let ?u' = "if t \<in> set u then remove1 t u else u"
  have u': "?u' = filter (\<lambda>n. n \<noteq> t) u"
    using Cons.prems by (simp add: remove1_distinct_filter filter_absent)
  have "fst (derived_into_loop e (t # ts) (u, d)) = fst (derived_into_loop e ts (?u', dict_append d t e))"
    by simp
  also have "\<dots> = filter (\<lambda>n. n \<notin> set ts) ?u'"
    using Cons.prems by (intro Cons.IH) simp
  also have "\<dots> = filter (\<lambda>n. n \<notin> set (t # ts)) u"
    unfolding u' by (simp add: conj_commute)
  finally show ?case .
qed

lemma derived_into_loop_lookup:
  "map_of (snd (derived_into_loop e ts (u, d))) t =
     (if t \<in> set ts
      then Some (etched_list d t @ map (\<lambda>_. e) (filter (\<lambda>t'. t' = t) ts))
      else map_of d t)"
  by (induction ts arbitrary: u d)
     (auto simp: map_of_dict_append etched_list_dict_append filter_empty_conv)

lemma derived_into_loop_keys:
  "map fst (snd (derived_into_loop e ts (u, d))) = first_occurrences (map fst d) ts"
  by (induction ts arbitrary: u d) (auto simp: keys_dict_append)

lemma derived_into_loop_etched_list:
  "etched_list (snd (derived_into_loop e ts (u, d))) t =
     etched_list d t @ map (\<lambda>_. e) (filter (\<lambda>t'. t' = t) ts)"
  by (auto simp: etched_list_def derived_into_loop_lookup filter_empty_conv)

lemma derived_into_loop_empty:
  "into level = None \<or> into level = Some [] \<Longrightarrow>
     derived_into_loop e (into_or_empty level) st = st"
  by (cases st) (auto simp: into_or_empty_def)

lemma derived_into_loop_removed:
  "t \<notin> set u \<Longrightarrow> fst (derived_into_loop e [t] (u, d)) = u"
  by simp

subsection \<open>The loop over the etch layers\<close>

lemma dict_getitem_member:
  "distinct (map fst ls) \<Longrightarrow> (n, level) \<in> set ls \<Longrightarrow> dict_getitem ls n = Inr level"
  by (simp add: dict_getitem_def)

lemma derived_etch_loop_pairs:
  assumes "distinct (map fst ls)"
  shows "set ps \<subseteq> set ls \<Longrightarrow>
         derived_etch_loop ls (map fst ps) st = Inr (fold into_step ps st)"
proof (induction ps arbitrary: st)
  case Nil
  then show ?case by simp
next
  case (Cons p ps)
  obtain e level where p: "p = (e, level)" by (cases p)
  have "dict_getitem ls e = Inr level"
    using Cons.prems assms p by (intro dict_getitem_member) auto
  then show ?case
    using Cons p by simp
qed

lemma fold_into_step_unetched:
  "distinct u \<Longrightarrow>
   fst (fold into_step ps (u, d)) =
     filter (\<lambda>n. n \<notin> set (concat (map (\<lambda>(e, level). into_or_empty level) ps))) u"
proof (induction ps arbitrary: u d)
  case Nil
  then show ?case by simp
next
  case (Cons p ps)
  obtain e level where p: "p = (e, level)" by (cases p)
  obtain u' d' where s: "derived_into_loop e (into_or_empty level) (u, d) = (u', d')"
    by (cases "derived_into_loop e (into_or_empty level) (u, d)")
  have u': "u' = filter (\<lambda>n. n \<notin> set (into_or_empty level)) u"
    using derived_into_loop_unetched [OF Cons.prems, of e "into_or_empty level" d] s by simp
  then have "distinct u'"
    using Cons.prems by simp
  from Cons.IH [OF this, of d'] show ?case
    using p s u' by (simp add: conj_commute)
qed

lemma fold_into_step_etched_list:
  "etched_list (snd (fold into_step ps (u, d))) t =
     etched_list d t @
     concat (map (\<lambda>(e, level). map (\<lambda>_. e) (filter (\<lambda>t'. t' = t) (into_or_empty level))) ps)"
proof (induction ps arbitrary: u d)
  case Nil
  then show ?case by simp
next
  case (Cons p ps)
  obtain e level where p: "p = (e, level)" by (cases p)
  obtain u' d' where s: "derived_into_loop e (into_or_empty level) (u, d) = (u', d')"
    by (cases "derived_into_loop e (into_or_empty level) (u, d)")
  have "etched_list d' t =
          etched_list d t @ map (\<lambda>_. e) (filter (\<lambda>t'. t' = t) (into_or_empty level))"
    using derived_into_loop_etched_list [of e "into_or_empty level" u d t] s by simp
  then show ?case
    using Cons.IH [of u' d'] p s by simp
qed

lemma fold_into_step_keys:
  "map fst (snd (fold into_step ps (u, d))) =
     first_occurrences (map fst d) (concat (map (\<lambda>(e, level). into_or_empty level) ps))"
proof (induction ps arbitrary: u d)
  case Nil
  then show ?case by simp
next
  case (Cons p ps)
  obtain e level where p: "p = (e, level)" by (cases p)
  obtain u' d' where s: "derived_into_loop e (into_or_empty level) (u, d) = (u', d')"
    by (cases "derived_into_loop e (into_or_empty level) (u, d)")
  have "map fst d' = first_occurrences (map fst d) (into_or_empty level)"
    using derived_into_loop_keys [of e "into_or_empty level" u d] s by simp
  then show ?case
    using Cons.IH [of u' d'] p s by (simp add: first_occurrences_append)
qed

lemma map_of_etched_list:
  "map_of d t = (if t \<in> set (map fst d) then Some (etched_list d t) else None)"
  by (cases "map_of d t")
     (auto simp: etched_list_def map_of_eq_None_iff dest: map_of_SomeD intro: rev_image_eqI)

lemma distinct_names_of_kind: "distinct (map fst ls) \<Longrightarrow> distinct (names_of_kind kind ls)"
  by (simp add: names_of_kind_def distinct_map_filter)

text \<open>The pass of the builder, in closed form.\<close>

lemma derived_classification_closed:
  assumes "distinct (map fst (layers s))"
  shows "\<exists>u d. derived_classification s = Inr (u, d)
     \<and> u = filter (\<lambda>n. n \<notin> set (etch_targets (layers s))) (names_of_kind Grow (layers s))
     \<and> map fst d = first_occurrences [] (etch_targets (layers s))
     \<and> (\<forall>t. etched_list d t = etched_by_spec (layers s) t)"
proof -
  let ?ls = "layers s"
  let ?st = "fold into_step (etch_levels ?ls) (names_of_kind Grow ?ls, [])"
  have run: "derived_classification s = Inr ?st"
    using derived_etch_loop_pairs [OF assms, of "etch_levels ?ls"]
    by (simp add: derived_classification_def names_of_kind_def etch_levels_def)
  have u: "fst ?st = filter (\<lambda>n. n \<notin> set (etch_targets ?ls)) (names_of_kind Grow ?ls)"
    unfolding etch_targets_def
    by (rule fold_into_step_unetched [OF distinct_names_of_kind [OF assms]])
  have k: "map fst (snd ?st) = first_occurrences [] (etch_targets ?ls)"
    using fold_into_step_keys [of "etch_levels ?ls" "names_of_kind Grow ?ls" "[]"]
    by (simp add: etch_targets_def)
  have e: "etched_list (snd ?st) t = etched_by_spec ?ls t" for t
    using fold_into_step_etched_list [of "etch_levels ?ls" "names_of_kind Grow ?ls" "[]" t]
    by (simp add: etched_by_spec_def etched_list_def)
  have "derived_classification s = Inr (fst ?st, snd ?st)"
    using run by simp
  with u k e show ?thesis
    by blast
qed

subsection \<open>The two passes agree\<close>

lemma script_into_loop_eq: "script_into_loop e ts st = derived_into_loop e ts st"
  by (induction e ts st rule: script_into_loop.induct) auto

lemma script_etch_loop_eq: "script_etch_loop ls ns st = derived_etch_loop ls ns st"
  by (induction ns arbitrary: st) (auto simp: script_into_loop_eq split: sum.splits)

lemma script_classification_eq: "script_classification s = derived_classification s"
  by (simp add: script_classification_def derived_classification_def script_etch_loop_eq Let_def)

section \<open>The claims\<close>

text \<open>
  C4. The classification pass inside \<open>get_klayout_3d_script\<close> and the one inside
  \<open>get_component_with_derived_layers\<close> give the same \<open>unetched_layers\<close> and the same
  \<open>etched_by\<close> on every stack.
\<close>

theorem C4_passes_agree: "script_classification s = derived_classification s"
  by (rule script_classification_eq)

subsection \<open>Failures of the script\<close>

lemma derived_etch_loop_returns:
  "set ns \<subseteq> fst ` set ls \<Longrightarrow> \<exists>st'. derived_etch_loop ls ns st = Inr st'"
proof (induction ns arbitrary: st)
  case Nil
  then show ?case by simp
next
  case (Cons n ns)
  then obtain level where "map_of ls n = Some level"
    by (cases "map_of ls n") (auto simp: map_of_eq_None_iff)
  then show ?case
    using Cons by (simp add: dict_getitem_def)
qed

lemma derived_classification_returns: "\<exists>u d. derived_classification s = Inr (u, d)"
proof -
  have "set (names_of_kind Etch (layers s)) \<subseteq> fst ` set (layers s)"
    by (auto simp: names_of_kind_def)
  from derived_etch_loop_returns [OF this] show ?thesis
    by (simp add: derived_classification_def)
qed

lemma slab_z_loop_error:
  "slab_z_loop fmt lv ls n level ly its sl = Inl e \<Longrightarrow>
     \<exists>k. e = KeyError (NameKey k) \<and> map_of ls k = None"
  by (induction fmt lv ls n level ly its sl rule: slab_z_loop.induct)
     (auto simp: dict_getitem_def Let_def split: option.splits sum.splits)

lemma slab_z_loop_fails:
  assumes "map_of ls t = None"
  shows "(i, t) \<in> set its \<Longrightarrow> \<exists>e. slab_z_loop fmt lv ls n level ly its sl = Inl e"
proof (induction its arbitrary: sl)
  case Nil
  then show ?case by simp
next
  case (Cons a its)
  obtain j t' where a: "a = (j, t')" by (cases a)
  show ?case
  proof (cases "map_of ls t'")
    case None
    then show ?thesis
      using a by (simp add: dict_getitem_def)
  next
    case (Some tl)
    then have "(i, t) \<in> set its"
      using Cons.prems a assms by auto
    from Cons.IH [OF this, of "Some (slab_name t' n j)"] show ?thesis
      using a Some by (auto simp: dict_getitem_def Let_def)
  qed
qed

lemma z_level_error:
  "z_level rnd fmt lv dbu ls u entry sl = Inl e \<Longrightarrow>
     \<exists>k. e = KeyError (NameKey k) \<and> map_of ls k = None"
  by (auto simp: z_level_def Let_def split: prod.splits option.splits if_splits
      dest: slab_z_loop_error)

lemma z_level_fails:
  assumes "layer_type level = Etch" "layer level \<noteq> None"
    "t \<in> set (into_or_empty level)" "map_of ls t = None"
  shows "\<exists>e. z_level rnd fmt lv dbu ls u (n, level) sl = Inl e"
proof -
  from assms(3) obtain i where "i < length (into_or_empty level)" "into_or_empty level ! i = t"
    by (auto simp: in_set_conv_nth)
  then have "(i, t) \<in> set (enumerate 0 (into_or_empty level))"
    by (simp add: in_set_enumerate_eq)
  from slab_z_loop_fails [OF assms(4) this] show ?thesis
    using assms(1,2) by (auto simp: z_level_def Let_def)
qed

lemma z_loop_error:
  "z_loop rnd fmt lv dbu ls u rest sl = Inl e \<Longrightarrow>
     \<exists>k. e = KeyError (NameKey k) \<and> map_of ls k = None"
  by (induction rest arbitrary: sl)
     (auto split: sum.splits prod.splits dest: z_level_error)

lemma z_loop_fails:
  assumes "(n, level) \<in> set rest" "layer_type level = Etch" "layer level \<noteq> None"
    "t \<in> set (into_or_empty level)" "map_of ls t = None"
  shows "\<exists>e. z_loop rnd fmt lv dbu ls u rest sl = Inl e"
  using assms(1)
proof (induction rest arbitrary: sl)
  case Nil
  then show ?case by simp
next
  case (Cons entry rest)
  show ?case
  proof (cases "z_level rnd fmt lv dbu ls u entry sl")
    case (Inl e)
    then show ?thesis by simp
  next
    case (Inr r)
    obtain txts s where r: "r = (txts, s)" by (cases r)
    have "entry \<noteq> (n, level)"
      using Inr z_level_fails [OF assms(2-5), of rnd fmt lv dbu u n sl] by auto
    then have "(n, level) \<in> set rest"
      using Cons.prems by auto
    from Cons.IH [OF this, of s] show ?thesis
      using Inr r by auto
  qed
qed

text \<open>
  C10. When an etch-type level with a layer id names in its \<open>into\<close> a layer that is
  not in the stack, the loop of the \<open>z\<close> statements fails with the \<open>KeyError\<close> of a
  plain dict lookup for a name that is not in the stack (line 266), and so does the
  whole script: no text comes back, and the error is not the \<open>ValueError\<close> of
  \<open>LayerStack.__getitem__\<close>.
\<close>

theorem C10_dangling_into:
  assumes "(layer_name, level) \<in> set (layers s)"
    and "layer_type level = Etch" and "layer level \<noteq> None"
    and "t \<in> set (into_or_empty level)" and "t \<notin> fst ` set (layers s)"
  shows "\<exists>k unetched_layers etched_by.
           k \<notin> fst ` set (layers s)
         \<and> script_classification s = Inr (unetched_layers, etched_by)
         \<and> z_loop rnd fmt lv dbu (layers s) unetched_layers (layers s) None
             = Inl (KeyError (NameKey k))
         \<and> get_klayout_3d_script rnd fmt s lv dbu = Inl (KeyError (NameKey k))
         \<and> getitem s k = Inl (ValueError k (map fst (layers s)))"
proof -
  obtain u d where c: "script_classification s = Inr (u, d)"
    using derived_classification_returns [of s] by (auto simp: script_classification_eq)
  have absent: "map_of (layers s) t = None"
    using assms(5) by (simp add: map_of_eq_None_iff)
  from z_loop_fails [OF assms(1-4) absent] obtain e where
    e: "z_loop rnd fmt lv dbu (layers s) u (layers s) None = Inl e"
    by blast
  from z_loop_error [OF e] obtain k where
    k: "e = KeyError (NameKey k)" "map_of (layers s) k = None"
    by blast
  have "k \<notin> fst ` set (layers s)"
    using k(2) by (simp add: map_of_eq_None_iff)
  moreover have "get_klayout_3d_script rnd fmt s lv dbu = Inl (KeyError (NameKey k))"
    using c e k(1) by (simp add: get_klayout_3d_script_def script_parts_def)
  moreover have "getitem s k = Inl (ValueError k (map fst (layers s)))"
    using \<open>k \<notin> fst ` set (layers s)\<close> by (simp add: getitem_def)
  ultimately show ?thesis
    using c e k(1) by blast
qed

theorem C10_dangling_into_witness:
  "(''E'', level_E\<lparr>into := Some [''X'']\<rparr>) \<in> set (layers stack_dangling)
   \<and> layer_type (level_E\<lparr>into := Some [''X'']\<rparr>) = Etch
   \<and> layer (level_E\<lparr>into := Some [''X'']\<rparr>) \<noteq> None
   \<and> ''X'' \<in> set (into_or_empty (level_E\<lparr>into := Some [''X'']\<rparr>))
   \<and> ''X'' \<notin> fst ` set (layers stack_dangling)
   \<and> (\<exists>k. k \<notin> fst ` set (layers stack_dangling)
        \<and> get_klayout_3d_script rnd_none fmt_floor stack_dangling None None
            = Inl (KeyError (NameKey k)))"
proof -
  let ?level = "level_E\<lparr>into := Some [''X'']\<rparr>"
  have h1: "(''E'', ?level) \<in> set (layers stack_dangling)"
    by (simp add: stack_dangling_def)
  have h2: "layer_type ?level = Etch"
    by (simp add: level_E_def)
  have h3: "layer ?level \<noteq> None"
    by (simp add: level_E_def)
  have h4: "''X'' \<in> set (into_or_empty ?level)"
    by (simp add: into_or_empty_def)
  have h5: "''X'' \<notin> fst ` set (layers stack_dangling)"
    by (simp add: stack_dangling_def)
  from C10_dangling_into [OF h1 h2 h3 h4 h5, of rnd_none fmt_floor None None]
  show ?thesis
    using h1 h2 h3 h4 h5 by blast
qed

subsection \<open>The definitions of the script\<close>

lemma set_slab_definitions:
  "set (slab_definitions ls) =
     {slab_name (into_or_empty level ! i) layer_name i @ '' = '' @ into_or_empty level ! i
        @ '' &amp; '' @ layer_name
      | layer_name level i.
        (layer_name, level) \<in> set ls \<and> layer_type level = Etch
        \<and> i < length (into_or_empty level)}"
  (is "?l = ?r")
proof
  show "?l \<subseteq> ?r"
    by (auto simp: slab_definitions_def in_set_enumerate_eq simp del: append.simps
        split: if_splits) blast
  show "?r \<subseteq> ?l"
  proof
    fix x
    assume "x \<in> ?r"
    then obtain layer_name level i where
      x: "x = slab_name (into_or_empty level ! i) layer_name i @ '' = ''
              @ into_or_empty level ! i @ '' &amp; '' @ layer_name" and
      m: "(layer_name, level) \<in> set ls" "layer_type level = Etch"
         "i < length (into_or_empty level)"
      by blast
    let ?f = "\<lambda>(layer_name, level :: 'a LayerLevel).
                if layer_type level = Etch
                then map (\<lambda>(i, layer1).
                            slab_name layer1 layer_name i @ '' = '' @ layer1 @ '' &amp; ''
                              @ layer_name)
                         (enumerate 0 (into_or_empty level))
                else []"
    have "(i, into_or_empty level ! i) \<in> set (enumerate 0 (into_or_empty level))"
      using m(3) by (simp add: in_set_enumerate_eq)
    then have "x \<in> set (?f (layer_name, level))"
      using m(2) x by (auto simp del: append.simps intro!: rev_image_eqI)
    moreover have "?f (layer_name, level) \<in> set (map ?f ls)"
      using m(1) by (simp only: set_map) (rule imageI)
    ultimately have "x \<in> set (concat (map ?f ls))"
      unfolding set_concat by blast
    then show "x \<in> ?l"
      by (simp only: slab_definitions_def)
  qed
qed

text \<open>
  C8, as the code has it. When the script is emitted, its slab definition lines are
  exactly the lines \<open>slab_<target>_<etch>_<i> = <target> &amp; <etch>\<close>, one for every
  etch-type level and every index \<open>i\<close> of its \<open>into\<close> list, with the intersection
  written as the five characters of the escaped ampersand; and the line of an etched
  layer is \<open>unetched_<name> = <name> - \<close> followed by its etch layers joined by \<open> - \<close>.
\<close>

theorem C8_slab_definition_lines:
  assumes "script_parts rnd fmt s lv dbu = Inr p"
  shows "set (slab_defs p) =
           {slab_name (into_or_empty level ! i) layer_name i @ '' = '' @ into_or_empty level ! i
              @ '' &amp; '' @ layer_name
            | layer_name level i.
              (layer_name, level) \<in> set (layers s) \<and> layer_type level = Etch
              \<and> i < length (into_or_empty level)}
       \<and> (\<exists>unetched_layers etched_by.
             script_classification s = Inr (unetched_layers, etched_by)
           \<and> unetched_defs p =
               map (\<lambda>(t, es). ''unetched_'' @ t @ '' = '' @ t @ '' - '' @ join '' - '' es)
                   etched_by)"
proof -
  from assms obtain u d where
    c: "script_classification s = Inr (u, d)" and
    sd: "slab_defs p = slab_definitions (layers s)" and
    ud: "unetched_defs p = unetched_definitions d"
    by (auto simp: script_parts_def Let_def split: sum.splits prod.splits)
  show ?thesis
    using c ud unfolding sd set_slab_definitions
    by (auto simp: unetched_definitions_def)
qed

lemmas example_defs = stack_LE_def level_L_def level_E_def LayerLevel_init_def

lemmas script_run_defs = script_parts_def script_classification_def names_of_kind_def
  dict_getitem_def into_or_empty_def z_level_def Let_def round_dbu_def input_definitions_def
  unetched_definitions_def slab_definitions_def slab_name_def layer_label_def str_int_def
  str_nat.simps str_opt_def

lemma script_parts_stack_LE: "script_parts rnd fmt stack_LE None dbu = Inr (parts_LE fmt)"
  by (simp add: example_defs script_run_defs parts_LE_def)

theorem C8_slab_definition_lines_witness:
  "script_parts rnd_none fmt_floor stack_LE None None = Inr (parts_LE fmt_floor)
   \<and> set (slab_defs (parts_LE fmt_floor)) =
       {slab_name (into_or_empty level ! i) layer_name i @ '' = '' @ into_or_empty level ! i
          @ '' &amp; '' @ layer_name
        | layer_name level i.
          (layer_name, level) \<in> set (layers stack_LE) \<and> layer_type level = Etch
          \<and> i < length (into_or_empty level)}"
proof -
  have h: "script_parts rnd_none fmt_floor stack_LE None None = Inr (parts_LE fmt_floor)"
    by (rule script_parts_stack_LE)
  from C8_slab_definition_lines [OF h] show ?thesis
    using h by blast
qed

text \<open>
  C8 as the claim words it fails: the slab definition line of the script of \<open>stack_LE\<close>
  is \<open>slab_L_E_0 = L &amp; E\<close>, which is not \<open>slab_L_E_0 = L & E\<close>.
\<close>

theorem C8_counterexample:
  "script_parts rnd_none fmt_floor stack_LE None None = Inr (parts_LE fmt_floor)
   \<and> slab_defs (parts_LE fmt_floor) = [''slab_L_E_0 = L &amp; E'']
   \<and> ''slab_L_E_0 = L & E'' \<notin> set (slab_defs (parts_LE fmt_floor))"
  by (simp add: script_parts_stack_LE) (simp add: parts_LE_def)

subsection \<open>The \<open>z\<close> statements\<close>

lemma slab_z_loop_member:
  assumes "(i, t) \<in> set its"
  shows "slab_z_loop fmt lv ls n level ly its sl = Inr (txts, sl') \<Longrightarrow>
         \<exists>tl. map_of ls t = Some tl
            \<and> z_txt lv ly (slab_name t n i) (fmt (zmin tl))
                 (fmt (zmin tl + thickness tl - thickness level))
                 (layer_label (slab_name t n i) (material level) ly) \<in> set txts"
  using assms
proof (induction its arbitrary: sl txts)
  case Nil
  then show ?case by simp
next
  case (Cons a its)
  obtain j t' where a: "a = (j, t')" by (cases a)
  from Cons.prems(1) a obtain tl' txts' where
    tl': "map_of ls t' = Some tl'" and
    rest: "slab_z_loop fmt lv ls n level ly its (Some (slab_name t' n j)) = Inr (txts', sl')" and
    txts: "txts = z_txt lv ly (slab_name t' n j) (fmt (zmin tl'))
                    (fmt (zmin tl' + thickness tl' - thickness level))
                    (layer_label (slab_name t' n j) (material level) ly) # txts'"
    by (auto simp: dict_getitem_def Let_def split: option.splits sum.splits)
  show ?case
  proof (cases "(i, t) = (j, t')")
    case True
    then show ?thesis
      using tl' txts by auto
  next
    case False
    then have "(i, t) \<in> set its"
      using Cons.prems(2) a by auto
    from Cons.IH [OF rest this] show ?thesis
      using txts by auto
  qed
qed

lemma z_loop_member:
  assumes "(n, level) \<in> set rest" "layer level = Some ly" "layer_type level = Etch"
  shows "z_loop rnd fmt lv dbu ls u rest sl = Inr (txts, sl') \<Longrightarrow>
         \<exists>sl1 txts1 sl1'.
            slab_z_loop fmt lv ls n level ly (enumerate 0 (into_or_empty level)) sl1
              = Inr (txts1, sl1')
          \<and> set txts1 \<subseteq> set txts"
  using assms(1)
proof (induction rest arbitrary: sl txts)
  case Nil
  then show ?case by simp
next
  case (Cons entry rest)
  from Cons.prems(1) obtain txts0 s txts' where
    first: "z_level rnd fmt lv dbu ls u entry sl = Inr (txts0, s)" and
    rest: "z_loop rnd fmt lv dbu ls u rest s = Inr (txts', sl')" and
    txts: "txts = txts0 @ txts'"
    by (auto split: sum.splits prod.splits)
  show ?case
  proof (cases "entry = (n, level)")
    case True
    then have "slab_z_loop fmt lv ls n level ly (enumerate 0 (into_or_empty level)) sl
                 = Inr (txts0, s)"
      using first assms(2,3) by (simp add: z_level_def Let_def)
    then show ?thesis
      using txts by auto
  next
    case False
    then have "(n, level) \<in> set rest"
      using Cons.prems(2) by auto
    from Cons.IH [OF rest this] show ?thesis
      using txts by auto
  qed
qed

lemma unetched_z_loop_member:
  assumes "t \<in> set keys"
  shows "unetched_z_loop fmt lv ls sl keys = Inr txts \<Longrightarrow>
         \<exists>tl ly. map_of ls t = Some tl \<and> layer tl = Some ly
            \<and> z_txt lv ly (''unetched_'' @ t) (fmt (zmin tl)) (fmt (zmin tl + thickness tl))
                 (layer_label (''unetched_'' @ t) (material tl) ly) \<in> set txts"
  using assms
proof (induction keys arbitrary: txts)
  case Nil
  then show ?case by simp
next
  case (Cons k keys)
  from Cons.prems(1) obtain tl ly txts' where
    tl: "map_of ls k = Some tl" "layer tl = Some ly" and
    rest: "unetched_z_loop fmt lv ls sl keys = Inr txts'" and
    txts: "txts = z_txt lv ly (''unetched_'' @ k) (fmt (zmin tl)) (fmt (zmin tl + thickness tl))
                    (layer_label (''unetched_'' @ k) (material tl) ly) # txts'"
    by (auto simp: dict_getitem_def Let_def split: option.splits sum.splits)
  show ?case
  proof (cases "t = k")
    case True
    then show ?thesis
      using tl txts by (intro exI [of _ tl] exI [of _ ly]) simp
  next
    case False
    then have "t \<in> set keys"
      using Cons.prems(2) by auto
    from Cons.IH [OF rest this] obtain tl2 ly2 where
      "map_of ls t = Some tl2" "layer tl2 = Some ly2"
      "z_txt lv ly2 (''unetched_'' @ t) (fmt (zmin tl2)) (fmt (zmin tl2 + thickness tl2))
         (layer_label (''unetched_'' @ t) (material tl2) ly2) \<in> set txts'"
      by blast
    then show ?thesis
      using txts by (intro exI [of _ tl2] exI [of _ ly2]) simp
  qed
qed

lemma unetched_z_loop_length:
  "unetched_z_loop fmt lv ls sl keys = Inr txts \<Longrightarrow> length txts = length keys"
  by (induction keys arbitrary: txts)
     (auto simp: dict_getitem_def Let_def split: option.splits sum.splits)

subsection \<open>Statements in the text of the script\<close>

lemma layer_true_cases:
  "layer_true l =
     (case l of
        None \<Rightarrow> False
      | Some (LayerEnum index number dtype) \<Rightarrow> index \<noteq> 0
      | Some (LayerTuple number dtype) \<Rightarrow> True)"
  by (cases l rule: layer_true.cases) auto

lemma lines_text_member:
  "x \<in> set xs \<Longrightarrow> \<exists>pre post. nl @ lines_text xs = pre @ nl @ x @ nl @ post"
proof (induction xs)
  case Nil
  then show ?case by simp
next
  case (Cons y ys)
  show ?case
  proof (cases "x = y")
    case True
    have "nl @ lines_text (y # ys) = [] @ nl @ x @ nl @ lines_text ys"
      using True by (simp add: lines_text_def)
    then show ?thesis by blast
  next
    case False
    then have "x \<in> set ys"
      using Cons.prems by simp
    from Cons.IH [OF this] obtain pre post where
      "nl @ lines_text ys = pre @ nl @ x @ nl @ post"
      by blast
    then have "nl @ lines_text (y # ys) = (nl @ y @ pre) @ nl @ x @ nl @ post"
      by (simp add: lines_text_def)
    then show ?thesis by blast
  qed
qed

lemma render_z_statement:
  assumes "x \<in> set (z_statements p)"
  shows "sublist (nl @ x @ nl) (render p)"
proof -
  from lines_text_member [OF assms] obtain pre post where
    "nl @ lines_text (z_statements p) = pre @ nl @ x @ nl @ post"
    by blast
  then have "render p =
      (join nl (inputs p) @ nl @ nl @ lines_text (unetched_defs p) @ nl
         @ lines_text (slab_defs p) @ pre)
      @ (nl @ x @ nl) @ (post @ nl @ lines_text (unetched_z_statements p))"
    by (simp add: render_def)
  then show ?thesis
    unfolding sublist_def by blast
qed

lemma render_unetched_z_statement:
  assumes "x \<in> set (unetched_z_statements p)"
  shows "sublist (nl @ x @ nl) (render p)"
proof -
  from lines_text_member [OF assms] obtain pre post where
    "nl @ lines_text (unetched_z_statements p) = pre @ nl @ x @ nl @ post"
    by blast
  then have "render p =
      (join nl (inputs p) @ nl @ nl @ lines_text (unetched_defs p) @ nl
         @ lines_text (slab_defs p) @ nl @ lines_text (z_statements p) @ pre)
      @ (nl @ x @ nl) @ post"
    by (simp add: render_def)
  then show ?thesis
    unfolding sublist_def by blast
qed

lemma sublist_z_txt:
  assumes "sublist (nl @ z_txt lv ly nm a b label @ nl) out"
  shows "sublist (CHR 0x0A # ''z('' @ nm @ '', zstart: '' @ a @ '', zstop: '' @ b @ '', name: '')
           out"
proof -
  from assms obtain ps ss where "out = ps @ (nl @ z_txt lv ly nm a b label @ nl) @ ss"
    unfolding sublist_def by blast
  then have "out = ps
      @ (CHR 0x0A # ''z('' @ nm @ '', zstart: '' @ a @ '', zstop: '' @ b @ '', name: '')
      @ (quote @ label @ quote @ color_tokens lv ly @ '')'' @ nl @ ss)"
    by (simp add: z_txt_def z_head_def nl_def)
  then show ?thesis
    unfolding sublist_def by blast
qed

text \<open>
  C6. When the script is returned for a stack with unique names, its text has, at the
  start of a line: for every etch-type level \<open>E\<close> that has a layer and every index \<open>i\<close>
  of its \<open>into\<close> list, with target \<open>T\<close>, the statement of \<open>slab_T_E_i\<close> with \<open>zstart\<close> the
  \<open>zmin\<close> of \<open>T\<close> and \<open>zstop\<close> the \<open>zmin + thickness\<close> of \<open>T\<close> minus the thickness of \<open>E\<close>;
  and for every layer \<open>T\<close> named in the \<open>into\<close> list of an etch layer, the statement of
  \<open>unetched_T\<close> with \<open>zstart\<close> the \<open>zmin\<close> of \<open>T\<close> and \<open>zstop\<close> its \<open>zmin + thickness\<close>,
  whatever the etch layers are.
\<close>

theorem C6_z_extents:
  assumes "distinct (map fst (layers s))"
    and "get_klayout_3d_script rnd fmt s lv dbu = Inr out"
  shows "(\<forall>(e, level) \<in> set (layers s). \<forall>i.
            layer level \<noteq> None \<and> layer_type level = Etch
            \<and> i < length (case into level of None \<Rightarrow> [] | Some ts \<Rightarrow> ts) \<longrightarrow>
            (\<exists>t tl. t = (case into level of None \<Rightarrow> [] | Some ts \<Rightarrow> ts) ! i
               \<and> map_of (layers s) t = Some tl
               \<and> sublist (CHR 0x0A # ''z('' @ (''slab_'' @ t @ ''_'' @ e @ ''_'' @ str_nat i)
                           @ '', zstart: '' @ fmt (zmin tl)
                           @ '', zstop: '' @ fmt (zmin tl + thickness tl - thickness level)
                           @ '', name: '')
                    out))
       \<and> (\<forall>(e, level) \<in> set (layers s). \<forall>t.
            layer_type level = Etch
            \<and> (case layer level of
                  None \<Rightarrow> False
                | Some (LayerEnum index number dtype) \<Rightarrow> index \<noteq> 0
                | Some (LayerTuple number dtype) \<Rightarrow> True)
            \<and> t \<in> set (case into level of None \<Rightarrow> [] | Some ts \<Rightarrow> ts) \<longrightarrow>
            (\<exists>tl. map_of (layers s) t = Some tl
               \<and> sublist (CHR 0x0A # ''z('' @ (''unetched_'' @ t)
                           @ '', zstart: '' @ fmt (zmin tl)
                           @ '', zstop: '' @ fmt (zmin tl + thickness tl)
                           @ '', name: '')
                    out))"
proof -
  from assms(2) obtain p where
    sp: "script_parts rnd fmt s lv dbu = Inr p" and out: "out = render p"
    by (auto simp: get_klayout_3d_script_def split: sum.splits)
  from derived_classification_closed [OF assms(1)] obtain u d where
    c: "script_classification s = Inr (u, d)" and
    k: "map fst d = first_occurrences [] (etch_targets (layers s))"
    by (auto simp: script_classification_eq)
  from sp c obtain sl where
    z: "z_loop rnd fmt lv dbu (layers s) u (layers s) None = Inr (z_statements p, sl)" and
    uz: "unetched_z_loop fmt lv (layers s) sl (map fst d) = Inr (unetched_z_statements p)"
    by (auto simp: script_parts_def Let_def split: sum.splits prod.splits)
  have slabs: "\<exists>t tl. t = (case into level of None \<Rightarrow> [] | Some ts \<Rightarrow> ts) ! i
               \<and> map_of (layers s) t = Some tl
               \<and> sublist (CHR 0x0A # ''z('' @ (''slab_'' @ t @ ''_'' @ e @ ''_'' @ str_nat i)
                           @ '', zstart: '' @ fmt (zmin tl)
                           @ '', zstop: '' @ fmt (zmin tl + thickness tl - thickness level)
                           @ '', name: '')
                    out"
    if m: "(e, level) \<in> set (layers s)" "layer level \<noteq> None" "layer_type level = Etch"
      "i < length (case into level of None \<Rightarrow> [] | Some ts \<Rightarrow> ts)"
    for e level i
  proof -
    from m(2) obtain ly where ly: "layer level = Some ly" by blast
    have i: "i < length (into_or_empty level)"
      using m(4) by (simp add: into_or_empty_def)
    from z_loop_member [OF m(1) ly m(3) z] obtain sl1 txts1 sl1' where
      run: "slab_z_loop fmt lv (layers s) e level ly
              (enumerate 0 (into_or_empty level)) sl1 = Inr (txts1, sl1')" and
      sub: "set txts1 \<subseteq> set (z_statements p)"
      by blast
    have "(i, into_or_empty level ! i) \<in> set (enumerate 0 (into_or_empty level))"
      using i by (simp add: in_set_enumerate_eq)
    from slab_z_loop_member [OF this run] obtain tl where
      tl: "map_of (layers s) (into_or_empty level ! i) = Some tl" and
      x: "z_txt lv ly (slab_name (into_or_empty level ! i) e i) (fmt (zmin tl))
            (fmt (zmin tl + thickness tl - thickness level))
            (layer_label (slab_name (into_or_empty level ! i) e i) (material level) ly)
          \<in> set txts1"
      by blast
    from x sub have "sublist (nl @ z_txt lv ly (slab_name (into_or_empty level ! i) e i)
            (fmt (zmin tl)) (fmt (zmin tl + thickness tl - thickness level))
            (layer_label (slab_name (into_or_empty level ! i) e i) (material level) ly) @ nl) out"
      unfolding out by (intro render_z_statement) blast
    from sublist_z_txt [OF this] tl show ?thesis
      by (simp add: slab_name_def into_or_empty_def)
  qed
  have unetched: "\<exists>tl. map_of (layers s) t = Some tl
               \<and> sublist (CHR 0x0A # ''z('' @ (''unetched_'' @ t)
                           @ '', zstart: '' @ fmt (zmin tl)
                           @ '', zstop: '' @ fmt (zmin tl + thickness tl)
                           @ '', name: '')
                    out"
    if m: "(e, level) \<in> set (layers s)" "layer_type level = Etch"
      "layer_true (layer level)" "t \<in> set (into_or_empty level)"
    for e level t
  proof -
    have "(e, level) \<in> set (etch_levels (layers s))"
      using m(1-3) by (simp add: etch_levels_def)
    then have "t \<in> set (etch_targets (layers s))"
      using m(4) by (auto simp: etch_targets_def)
    then have "t \<in> set (map fst d)"
      using k by (simp add: set_first_occurrences)
    from unetched_z_loop_member [OF this uz] obtain tl ly where
      tl: "map_of (layers s) t = Some tl" and
      x: "z_txt lv ly (''unetched_'' @ t) (fmt (zmin tl)) (fmt (zmin tl + thickness tl))
            (layer_label (''unetched_'' @ t) (material tl) ly)
          \<in> set (unetched_z_statements p)"
      by blast
    from x have "sublist (nl @ z_txt lv ly (''unetched_'' @ t) (fmt (zmin tl))
            (fmt (zmin tl + thickness tl))
            (layer_label (''unetched_'' @ t) (material tl) ly) @ nl) out"
      unfolding out by (rule render_unetched_z_statement)
    from sublist_z_txt [OF this] tl show ?thesis
      by simp
  qed
  show ?thesis
    unfolding case_prod_beta
    apply (intro conjI ballI allI impI)
    subgoal for x i
      using slabs [of "fst x" "snd x" i] by simp
    subgoal for x t
      using unetched [of "fst x" "snd x" t] by (simp add: layer_true_cases into_or_empty_def)
    done
qed

lemmas whole_defs = stack_whole_def level_whole_L_def level_whole_E_def level_whole_M_def
  level_whole_F_def level_L_def level_E_def LayerLevel_init_def

lemma script_parts_stack_whole:
  "script_parts rnd_none fmt_floor stack_whole None None = Inr
     \<lparr>inputs = [''L = input(1, 0)'', ''E = input(2, 0)'', ''M = input(3, 0)'',
                ''F = input(5, 0)''],
      unetched_defs = [''unetched_L = L - E - F'', ''unetched_M = M - F''],
      slab_defs = [''slab_L_E_0 = L &amp; E'', ''slab_L_F_0 = L &amp; F'',
                   ''slab_M_F_1 = M &amp; F''],
      z_statements =
        [z_txt None (LayerTuple 2 0) ''slab_L_E_0'' ''2'' ''6'' ''slab_L_E_0: None 2/0'',
         z_txt None (LayerEnum 4 5 0) ''slab_L_F_0'' ''2'' ''4'' ''slab_L_F_0: None 5/0'',
         z_txt None (LayerEnum 4 5 0) ''slab_M_F_1'' ''10'' ''9'' ''slab_M_F_1: None 5/0''],
      unetched_z_statements =
        [z_txt None (LayerTuple 1 0) ''unetched_L'' ''2'' ''7'' ''unetched_L: None 1/0'',
         z_txt None (LayerTuple 3 0) ''unetched_M'' ''10'' ''12'' ''unetched_M: None 3/0'']\<rparr>"
  by (simp add: whole_defs script_run_defs fmt_floor_def rnd_none_def)

lemma script_stack_whole:
  "get_klayout_3d_script rnd_none fmt_floor stack_whole None None = Inr script_whole"
  by (simp add: get_klayout_3d_script_def script_parts_stack_whole render_def lines_text_def
      nl_def quote_def z_txt_def z_head_def color_tokens_def script_whole_def)

theorem C6_z_extents_witness:
  "distinct (map fst (layers stack_whole))
   \<and> get_klayout_3d_script rnd_none fmt_floor stack_whole None None = Inr script_whole
   \<and> (''F'', level_whole_F) \<in> set (layers stack_whole)
   \<and> layer level_whole_F = Some (LayerEnum 4 5 0) \<and> layer_type level_whole_F = Etch
   \<and> into level_whole_F = Some [''L'', ''M'']
   \<and> sublist (CHR 0x0A # ''z(slab_M_F_1, zstart: 10, zstop: 9, name: '') script_whole
   \<and> sublist (CHR 0x0A # ''z(unetched_L, zstart: 2, zstop: 7, name: '') script_whole"
proof -
  have h1: "distinct (map fst (layers stack_whole))"
    by (simp add: stack_whole_def)
  have h2: "get_klayout_3d_script rnd_none fmt_floor stack_whole None None = Inr script_whole"
    by (rule script_stack_whole)
  have h3: "(''F'', level_whole_F) \<in> set (layers stack_whole)"
    by (simp add: stack_whole_def)
  have h4: "layer level_whole_F = Some (LayerEnum 4 5 0) \<and> layer_type level_whole_F = Etch
            \<and> into level_whole_F = Some [''L'', ''M'']"
    by (simp add: level_whole_F_def level_E_def)
  note C6 = C6_z_extents [OF h1 h2]
  from bspec [OF conjunct1 [OF C6] h3, unfolded prod.case, THEN spec [where x = 1]] h4
  obtain t tl where
    t: "t = ''M''" "map_of (layers stack_whole) t = Some tl" and
    s: "sublist (CHR 0x0A # ''z('' @ (''slab_'' @ t @ ''_'' @ ''F'' @ ''_'' @ str_nat 1)
                  @ '', zstart: '' @ fmt_floor (zmin tl)
                  @ '', zstop: '' @ fmt_floor (zmin tl + thickness tl - thickness level_whole_F)
                  @ '', name: '')
          script_whole"
    by auto
  from t have "tl = level_whole_M"
    by (simp add: stack_whole_def)
  with t(1) s have s1:
    "sublist (CHR 0x0A # ''z(slab_M_F_1, zstart: 10, zstop: 9, name: '') script_whole"
    by (simp add: whole_defs fmt_floor_def str_int_def str_nat.simps)
  from bspec [OF conjunct2 [OF C6] h3, unfolded prod.case, THEN spec [where x = "''L''"]] h4
  obtain tl' where
    t': "map_of (layers stack_whole) ''L'' = Some tl'" and
    s': "sublist (CHR 0x0A # ''z('' @ (''unetched_'' @ ''L'')
                  @ '', zstart: '' @ fmt_floor (zmin tl')
                  @ '', zstop: '' @ fmt_floor (zmin tl' + thickness tl')
                  @ '', name: '')
          script_whole"
    by auto
  from t' have "tl' = level_whole_L"
    by (simp add: stack_whole_def)
  with s' have s2:
    "sublist (CHR 0x0A # ''z(unetched_L, zstart: 2, zstop: 7, name: '') script_whole"
    by (simp add: whole_defs fmt_floor_def str_int_def str_nat.simps)
  show ?thesis
    using h1 h2 h3 h4 s1 s2 by blast
qed

subsection \<open>The accessors\<close>

lemma dom_fold_levels:
  "dom (fold (\<lambda>level d. if P level then d(k level \<mapsto> v level) else d) xs m) =
     dom m \<union> {k level | level. level \<in> set xs \<and> P level}"
  by (induction xs arbitrary: m) auto

lemma dom_layer_to_thickness_loop:
  "dom (layer_to_thickness_loop xs m) =
     dom m \<union> {key_of (layer level) | level.
                level \<in> set xs \<and> layer_true (layer level) \<and> thickness level \<noteq> 0}"
  by (induction xs arbitrary: m) (auto simp: hasattr_operator_def)

lemma key_of_NoneKey: "key_of l = NoneKey \<longleftrightarrow> l = None"
  by (cases l rule: key_of.cases) auto

text \<open>
  C9, as the code has it. The keys of \<open>get_layer_to_zmin\<close>, \<open>get_layer_to_material\<close>
  and \<open>get_layer_to_sidewall_angle\<close> are the layers (\<open>None\<close> included) of the levels with
  a nonzero thickness. \<open>get_layer_to_thickness\<close> has no entry under \<open>None\<close> and no entry
  that \<open>get_layer_to_zmin\<close> lacks. Each of the four mappings has an entry under the
  layer of every level with a nonzero thickness whose layer is a pair or a
  \<open>LayerEnum\<close> of nonzero index.
\<close>

theorem C9_accessor_filters:
  fixes s :: "'f::zero LayerStack"
  shows "dom (get_layer_to_zmin s) =
           {key_of (layer level) | level.
              level \<in> set (map snd (layers s)) \<and> thickness level \<noteq> 0}
       \<and> dom (get_layer_to_material s) =
           {key_of (layer level) | level.
              level \<in> set (map snd (layers s)) \<and> thickness level \<noteq> 0}
       \<and> dom (get_layer_to_sidewall_angle s) =
           {key_of (layer level) | level.
              level \<in> set (map snd (layers s)) \<and> thickness level \<noteq> 0}
       \<and> dom (get_layer_to_thickness s) \<subseteq> dom (get_layer_to_zmin s)
       \<and> NoneKey \<notin> dom (get_layer_to_thickness s)
       \<and> (\<forall>level \<in> set (map snd (layers s)).
             thickness level \<noteq> 0
             \<and> (case layer level of
                   None \<Rightarrow> False
                 | Some (LayerEnum index number dtype) \<Rightarrow> index \<noteq> 0
                 | Some (LayerTuple number dtype) \<Rightarrow> True) \<longrightarrow>
               key_of (layer level) \<in> dom (get_layer_to_thickness s)
             \<and> key_of (layer level) \<in> dom (get_layer_to_zmin s)
             \<and> key_of (layer level) \<in> dom (get_layer_to_material s)
             \<and> key_of (layer level) \<in> dom (get_layer_to_sidewall_angle s))"
proof -
  have z: "dom (get_layer_to_zmin s) =
      {key_of (layer level) | level. level \<in> set (map snd (layers s)) \<and> thickness level \<noteq> 0}"
    unfolding get_layer_to_zmin_def
    by (simp only: dom_fold_levels [where P = "\<lambda>level. thickness level \<noteq> 0"]) simp
  have m: "dom (get_layer_to_material s) =
      {key_of (layer level) | level. level \<in> set (map snd (layers s)) \<and> thickness level \<noteq> 0}"
    unfolding get_layer_to_material_def
    by (simp only: dom_fold_levels [where P = "\<lambda>level. thickness level \<noteq> 0"]) simp
  have a: "dom (get_layer_to_sidewall_angle s) =
      {key_of (layer level) | level. level \<in> set (map snd (layers s)) \<and> thickness level \<noteq> 0}"
    unfolding get_layer_to_sidewall_angle_def
    by (simp only: dom_fold_levels [where P = "\<lambda>level. thickness level \<noteq> 0"]) simp
  have t: "dom (get_layer_to_thickness s) =
      {key_of (layer level) | level.
         level \<in> set (map snd (layers s)) \<and> layer_true (layer level) \<and> thickness level \<noteq> 0}"
    unfolding get_layer_to_thickness_def
    by (simp only: dom_layer_to_thickness_loop) simp
  have none: "NoneKey \<notin> dom (get_layer_to_thickness s)"
    unfolding t by (auto simp: key_of_NoneKey dest: sym)
  have sub: "dom (get_layer_to_thickness s) \<subseteq> dom (get_layer_to_zmin s)"
    unfolding t z by blast
  have all: "\<forall>level \<in> set (map snd (layers s)).
      thickness level \<noteq> 0
      \<and> (case layer level of
            None \<Rightarrow> False
          | Some (LayerEnum index number dtype) \<Rightarrow> index \<noteq> 0
          | Some (LayerTuple number dtype) \<Rightarrow> True) \<longrightarrow>
        key_of (layer level) \<in> dom (get_layer_to_thickness s)
      \<and> key_of (layer level) \<in> dom (get_layer_to_zmin s)
      \<and> key_of (layer level) \<in> dom (get_layer_to_material s)
      \<and> key_of (layer level) \<in> dom (get_layer_to_sidewall_angle s)"
    unfolding z m a t layer_true_cases [symmetric] by blast
  from z m a sub none all show ?thesis
    by (intro conjI)
qed

theorem C9_accessor_filters_witness:
  "level_whole_F \<in> set (map snd (layers stack_whole))
   \<and> thickness level_whole_F \<noteq> 0 \<and> layer level_whole_F = Some (LayerEnum 4 5 0)
   \<and> IndexKey 4 \<in> dom (get_layer_to_thickness stack_whole)
   \<and> IndexKey 4 \<in> dom (get_layer_to_zmin stack_whole)
   \<and> IndexKey 4 \<in> dom (get_layer_to_material stack_whole)
   \<and> IndexKey 4 \<in> dom (get_layer_to_sidewall_angle stack_whole)"
proof -
  have h: "level_whole_F \<in> set (map snd (layers stack_whole))"
    by (simp add: stack_whole_def)
  have g: "thickness level_whole_F \<noteq> 0 \<and> layer level_whole_F = Some (LayerEnum 4 5 0)"
    by (simp add: level_whole_F_def level_E_def LayerLevel_init_def)
  note C9 = C9_accessor_filters [of stack_whole]
  from C9 have "\<forall>level \<in> set (map snd (layers stack_whole)).
      thickness level \<noteq> 0
      \<and> (case layer level of
            None \<Rightarrow> False
          | Some (LayerEnum index number dtype) \<Rightarrow> index \<noteq> 0
          | Some (LayerTuple number dtype) \<Rightarrow> True) \<longrightarrow>
        key_of (layer level) \<in> dom (get_layer_to_thickness stack_whole)
      \<and> key_of (layer level) \<in> dom (get_layer_to_zmin stack_whole)
      \<and> key_of (layer level) \<in> dom (get_layer_to_material stack_whole)
      \<and> key_of (layer level) \<in> dom (get_layer_to_sidewall_angle stack_whole)"
    by blast
  from bspec [OF this h] g show ?thesis
    using h by simp
qed

text \<open>
  C9 as the claim words it fails: a level without a layer and with thickness 1 is
  entered by \<open>get_layer_to_zmin\<close> (under the key \<open>None\<close>) and not by
  \<open>get_layer_to_thickness\<close>.
\<close>

theorem C9_counterexample:
  "thickness (LayerLevel_init (1::real) 0) \<noteq> 0
   \<and> key_of (layer (LayerLevel_init (1::real) 0))
       \<in> dom (get_layer_to_zmin \<lparr>layers = [(''N'', LayerLevel_init (1::real) 0)]\<rparr>)
   \<and> key_of (layer (LayerLevel_init (1::real) 0))
       \<notin> dom (get_layer_to_thickness \<lparr>layers = [(''N'', LayerLevel_init (1::real) 0)]\<rparr>)"
  by (simp add: get_layer_to_zmin_def get_layer_to_thickness_def LayerLevel_init_def
      hasattr_operator_def)

subsection \<open>The truth test of the layer\<close>

text \<open>
  C3 is what the sibling test \<open>layer is None\<close> of line 258 does and not what the
  classification does. The grown layer \<open>W\<close> has a layer, the \<open>LayerEnum\<close> member of index
  0, and no etch layer names it; the truth test of line 390 takes that member for no
  layer, and \<open>W\<close> is not in \<open>unetched_layers\<close>.
\<close>

theorem C3_failing_input:
  "layers stack_first = [(''W'', level_first)]
   \<and> layer level_first = Some (LayerEnum 0 1 0) \<and> layer_type level_first = Grow
   \<and> derived_classification stack_first = Inr ([], [])"
  by (simp add: derived_classification_def names_of_kind_def stack_first_def level_first_def
      LayerLevel_init_def)

subsection \<open>The derived geometry\<close>

lemma names_of_kind_no_etch:
  "\<forall>(n, level) \<in> set ls. layer_type level \<noteq> Etch \<Longrightarrow> names_of_kind Etch ls = []"
  by (auto simp: names_of_kind_def filter_empty_conv)

lemma unetched_layer_numbers_pairs:
  assumes "distinct (map fst ls)"
  shows "set ps \<subseteq> set ls \<Longrightarrow>
         unetched_layer_numbers ls polygons_per_layer (map fst ps)
           = Inr (concat (map (number_of polygons_per_layer) ps))"
proof (induction ps)
  case Nil
  then show ?case by simp
next
  case (Cons p ps)
  obtain n level where p: "p = (n, level)" by (cases p)
  have "dict_getitem ls n = Inr level"
    using Cons.prems assms p by (intro dict_getitem_member) auto
  then show ?case
    using Cons p by auto
qed

lemma shapes_region_extract:
  "shapes_region (Component_extract component numbers) i =
     (if IndexKey i \<in> set numbers then polygons_region component i else {})"
proof (induction numbers)
  case Nil
  then show ?case
    by (simp add: shapes_region_def Component_extract_def)
next
  case (Cons k numbers)
  have one: "\<Union> (set (map snd (filter (\<lambda>(index, r). index = i) (map (Pair j) polygons)))) =
               (if j = i then \<Union> (set polygons) else {})" for polygons :: "'a set list" and j
    by (induction polygons) auto
  have "shapes_region (Component_extract component (k # numbers)) i =
          (case k of
             IndexKey j \<Rightarrow>
               (case component j of
                  None \<Rightarrow> {}
                | Some polygons \<Rightarrow> if j = i then \<Union> (set polygons) else {})
           | _ \<Rightarrow> {})
          \<union> shapes_region (Component_extract component numbers) i"
    using one by (simp add: shapes_region_def Component_extract_def split: option.splits dict_key.splits)
  then show ?case
    using Cons by (auto simp: polygons_region_def split: option.splits dict_key.splits)
qed

lemma key_of_IndexKey:
  "key_of l = IndexKey i \<longleftrightarrow> (\<exists>number dtype. l = Some (LayerEnum i number dtype))"
  by (cases l rule: key_of.cases) auto

lemma layer_true_not_None: "layer_true l \<Longrightarrow> l \<noteq> None"
  by (cases l) auto

lemma number_of_member:
  "IndexKey i \<in> set (if get_polygons component (key_of l) \<noteq> None then [key_of l] else [])
   \<longleftrightarrow> (\<exists>number dtype. l = Some (LayerEnum i number dtype)) \<and> component i \<noteq> None"
  by (cases l rule: key_of.cases) (auto simp: get_polygons_def)

lemma set_numbers_of_grow:
  fixes ls :: "(string \<times> 'f LayerLevel) list"
  shows "IndexKey i \<in> set (concat (map (number_of (get_polygons component))
                  (filter (\<lambda>(n, level). layer_true (layer level) \<and> layer_type level = Grow) ls)))
   \<longleftrightarrow> (\<exists>(n, level) \<in> set ls.
          layer_type level = Grow
          \<and> (\<exists>number dtype. layer level = Some (LayerEnum i number dtype)) \<and> i \<noteq> 0)
        \<and> component i \<noteq> None"
proof (induction ls)
  case Nil
  then show ?case by simp
next
  case (Cons x ls)
  obtain n level where x: "x = (n, level)" by (cases x)
  let ?P = "\<lambda>(n, level :: 'f LayerLevel). layer_true (layer level) \<and> layer_type level = Grow"
  let ?Q = "\<lambda>(n :: string) (level :: 'f LayerLevel). layer_type level = Grow
          \<and> (\<exists>number dtype. layer level = Some (LayerEnum i number dtype)) \<and> i \<noteq> 0"
  let ?f = "number_of (get_polygons component) :: string \<times> 'f LayerLevel \<Rightarrow> dict_key list"
  have step: "IndexKey i \<in> set (concat (map ?f (filter ?P ((n, level) # ls)))) \<longleftrightarrow>
      (?P (n, level) \<and> IndexKey i \<in> set (?f (n, level)))
      \<or> IndexKey i \<in> set (concat (map ?f (filter ?P ls)))"
    by auto
  have rhs: "(\<exists>(n, level) \<in> set ((n, level) # ls). ?Q n level) \<longleftrightarrow>
      ?Q n level \<or> (\<exists>(n, level) \<in> set ls. ?Q n level)"
    by simp
  have key: "?P (n, level) \<and> IndexKey i \<in> set (?f (n, level)) \<longleftrightarrow>
      ?Q n level \<and> component i \<noteq> None"
    using number_of_member [of i component "layer level"] by auto
  show ?case
    unfolding x step rhs using key Cons.IH by blast
qed

text \<open>What the loop over the etched layers can end with.\<close>

lemma insert_polygons_error:
  "insert_polygons component_derived layer_index polygons = Inl e \<Longrightarrow> e = TypeError"
  by (induction polygons arbitrary: component_derived)
     (auto split: sum.splits elim: shapes_index.elims)

lemma etching_loop_error:
  "etching_loop get_layer ls polygons_per_layer polygons names st = Inl e \<Longrightarrow>
     \<exists>k. e = KeyError (NameKey k) \<and> map_of ls k = None"
proof (induction names arbitrary: st)
  case Nil
  then show ?case by simp
next
  case (Cons name names)
  obtain c li r where st: "st = (c, li, r)" by (cases st)
  from Cons.prems show ?case
    unfolding st
    by (auto simp: dict_getitem_def Let_def split: option.splits sum.splits dest: Cons.IH)
qed

lemma unetched_loop_raises:
  assumes "d \<noteq> []"
  shows "\<exists>e. unetched_loop get_layer ls d (component_derived, polygons_per_layer) = Inl e
            \<and> (e = TypeError \<or> (\<exists>k. e = KeyError (NameKey k) \<and> map_of ls k = None))"
proof -
  from assms obtain name names rest where d: "d = (name, names) # rest"
    by (cases d) auto
  show ?thesis
  proof (cases "dict_getitem ls name")
    case (Inl e)
    then show ?thesis
      using d by (auto simp: dict_getitem_def split: option.splits)
  next
    case (Inr level)
    obtain polygons p1 where g1:
      "defaultdict_getitem polygons_per_layer (key_of (layer level)) = (polygons, p1)"
      by (cases "defaultdict_getitem polygons_per_layer (key_of (layer level))")
    show ?thesis
    proof (cases "insert_polygons component_derived (key_of (layer level)) polygons")
      case (Inl e)
      then show ?thesis
        using d Inr g1 insert_polygons_error [OF Inl] by (simp add: Let_def)
    next
      case c1: (Inr component_derived1)
      show ?thesis
      proof (cases "etching_loop get_layer ls p1 polygons names
                      (component_derived1, key_of (layer level), {})")
        case (Inl e)
        then show ?thesis
          using d Inr g1 c1 etching_loop_error [OF Inl] by (simp add: Let_def)
      next
        case e2: (Inr st)
        obtain c2 li2 r2 where st: "st = (c2, li2, r2)" by (cases st)
        obtain polygons' p2 where g2:
          "defaultdict_getitem p1 (key_of (layer level)) = (polygons', p2)"
          by (cases "defaultdict_getitem p1 (key_of (layer level))")
        show ?thesis
          using d Inr g1 c1 e2 st g2 by (simp add: Let_def)
      qed
    qed
  qed
qed

text \<open>
  As soon as one layer is etched the builder returns no component: it ends with the
  \<open>TypeError\<close> of line 453, or before that with the \<open>KeyError\<close> of a name that the stack
  does not have.
\<close>

lemma builder_raises_when_etched:
  assumes "derived_classification s = Inr (u, d)" and "d \<noteq> []"
  shows "\<exists>e. get_component_with_derived_layers get_layer component s = Inl e"
proof (cases "unetched_layer_numbers (layers s) (get_polygons component) u")
  case (Inl e)
  then show ?thesis
    using assms(1) by (simp add: get_component_with_derived_layers_def)
next
  case (Inr numbers)
  from unetched_loop_raises [OF assms(2), of get_layer "layers s"
      "Component_extract component numbers" "get_polygons component"]
  show ?thesis
    using assms(1) Inr by (auto simp: get_component_with_derived_layers_def)
qed

text \<open>
  C7, as the code has it. For a stack with unique names and no etch-type level: no
  layer is etched; \<open>unetched_layers\<close> has only grow levels with a layer, and every grow
  level whose layer is a pair or a \<open>LayerEnum\<close> of nonzero index; the builder returns a
  component that holds on each layer index either what the input has there or nothing:
  what the input has on the index of every grow level whose layer is a \<open>LayerEnum\<close> of
  nonzero index, and nothing on an index that is not the layer of a grow level.
\<close>

theorem C7_no_etch_layers:
  assumes "distinct (map fst (layers s))"
    and "\<forall>(n, level) \<in> set (layers s). layer_type level \<noteq> Etch"
  shows "\<exists>unetched_layers component_derived.
           derived_classification s = Inr (unetched_layers, [])
         \<and> set unetched_layers \<subseteq>
             {n. \<exists>level. (n, level) \<in> set (layers s) \<and> layer_type level = Grow
                          \<and> layer level \<noteq> None}
         \<and> {n. \<exists>level. (n, level) \<in> set (layers s) \<and> layer_type level = Grow
                  \<and> (case layer level of
                        None \<Rightarrow> False
                      | Some (LayerEnum index number dtype) \<Rightarrow> index \<noteq> 0
                      | Some (LayerTuple number dtype) \<Rightarrow> True)}
             \<subseteq> set unetched_layers
         \<and> get_component_with_derived_layers get_layer component s = Inr component_derived
         \<and> (\<forall>i. shapes_region component_derived i = polygons_region component i
                \<or> shapes_region component_derived i = {})
         \<and> (\<forall>(n, level) \<in> set (layers s). \<forall>index number dtype.
               layer_type level = Grow \<and> layer level = Some (LayerEnum index number dtype)
               \<and> index \<noteq> 0 \<longrightarrow>
               shapes_region component_derived index = polygons_region component index)
         \<and> (\<forall>i. (\<forall>(n, level) \<in> set (layers s).
                     \<not> (layer_type level = Grow
                        \<and> (\<exists>number dtype. layer level = Some (LayerEnum i number dtype)))) \<longrightarrow>
                  shapes_region component_derived i = {})"
proof -
  let ?grow = "filter (\<lambda>(n, level). layer_true (layer level) \<and> layer_type level = Grow) (layers s)"
  let ?numbers = "concat (map (number_of (get_polygons component)) ?grow)"
  let ?out = "Component_extract component ?numbers"
  have c: "derived_classification s = Inr (names_of_kind Grow (layers s), [])"
    using names_of_kind_no_etch [OF assms(2)] by (simp add: derived_classification_def)
  have n: "unetched_layer_numbers (layers s) (get_polygons component)
             (names_of_kind Grow (layers s)) = Inr ?numbers"
    using unetched_layer_numbers_pairs [OF assms(1), of ?grow "get_polygons component"]
    by (simp add: names_of_kind_def)
  have run: "get_component_with_derived_layers get_layer component s = Inr ?out"
    using c n by (simp add: get_component_with_derived_layers_def)
  have region: "shapes_region ?out i =
          (if (\<exists>(n, level) \<in> set (layers s).
                 layer_type level = Grow
                 \<and> (\<exists>number dtype. layer level = Some (LayerEnum i number dtype)) \<and> i \<noteq> 0)
           then polygons_region component i else {})" for i
    unfolding shapes_region_extract set_numbers_of_grow by (auto simp: polygons_region_def)
  have u1: "set (names_of_kind Grow (layers s)) \<subseteq>
      {n. \<exists>level. (n, level) \<in> set (layers s) \<and> layer_type level = Grow \<and> layer level \<noteq> None}"
    by (force simp: names_of_kind_def dest: layer_true_not_None)
  have u2: "{n. \<exists>level. (n, level) \<in> set (layers s) \<and> layer_type level = Grow
                  \<and> (case layer level of
                        None \<Rightarrow> False
                      | Some (LayerEnum index number dtype) \<Rightarrow> index \<noteq> 0
                      | Some (LayerTuple number dtype) \<Rightarrow> True)}
             \<subseteq> set (names_of_kind Grow (layers s))"
    unfolding layer_true_cases [symmetric] by (force simp: names_of_kind_def)
  have r1: "\<forall>i. shapes_region ?out i = polygons_region component i \<or> shapes_region ?out i = {}"
    unfolding region by simp
  have r2: "\<forall>(n, level) \<in> set (layers s). \<forall>index number dtype.
               layer_type level = Grow \<and> layer level = Some (LayerEnum index number dtype)
               \<and> index \<noteq> 0 \<longrightarrow>
               shapes_region ?out index = polygons_region component index"
    unfolding region by auto
  have r3: "\<forall>i. (\<forall>(n, level) \<in> set (layers s).
                     \<not> (layer_type level = Grow
                        \<and> (\<exists>number dtype. layer level = Some (LayerEnum i number dtype)))) \<longrightarrow>
                  shapes_region ?out i = {}"
    unfolding region by auto
  from c u1 u2 run r1 r2 r3 show ?thesis
    by (intro exI [of _ "names_of_kind Grow (layers s)"] exI [of _ ?out] conjI)
qed

theorem C7_no_etch_layers_witness:
  "distinct (map fst (layers stack_grown))
   \<and> map (layer_type \<circ> snd) (layers stack_grown) = [Grow]
   \<and> (''L'', level_L1) \<in> set (layers stack_grown)
   \<and> layer level_L1 = Some (LayerEnum 1 1 0)
   \<and> (\<exists>unetched_layers component_derived.
         derived_classification stack_grown = Inr (unetched_layers, [])
       \<and> ''L'' \<in> set unetched_layers
       \<and> get_component_with_derived_layers enum_index component_L_other stack_grown
           = Inr component_derived
       \<and> shapes_region component_derived 1 = polygons_region component_L_other 1
       \<and> shapes_region component_derived 5 = {})"
proof -
  have h1: "distinct (map fst (layers stack_grown))"
    by (simp add: stack_grown_def)
  have h2: "\<forall>(n, level) \<in> set (layers stack_grown). layer_type level \<noteq> Etch"
    by (simp add: stack_grown_def level_L1_def LayerLevel_init_def)
  have h3: "(''L'', level_L1) \<in> set (layers stack_grown)"
    by (simp add: stack_grown_def)
  have h4: "layer level_L1 = Some (LayerEnum 1 1 0) \<and> layer_type level_L1 = Grow"
    by (simp add: level_L1_def LayerLevel_init_def)
  from C7_no_etch_layers [OF h1 h2, of enum_index component_L_other]
  obtain unetched_layers component_derived where
    c: "derived_classification stack_grown = Inr (unetched_layers, [])" and
    u: "{n. \<exists>level. (n, level) \<in> set (layers stack_grown) \<and> layer_type level = Grow
              \<and> (case layer level of
                    None \<Rightarrow> False
                  | Some (LayerEnum index number dtype) \<Rightarrow> index \<noteq> 0
                  | Some (LayerTuple number dtype) \<Rightarrow> True)}
         \<subseteq> set unetched_layers" and
    r: "get_component_with_derived_layers enum_index component_L_other stack_grown
          = Inr component_derived" and
    r2: "\<forall>(n, level) \<in> set (layers stack_grown). \<forall>index number dtype.
           layer_type level = Grow \<and> layer level = Some (LayerEnum index number dtype)
           \<and> index \<noteq> 0 \<longrightarrow>
           shapes_region component_derived index = polygons_region component_L_other index" and
    r3: "\<forall>i. (\<forall>(n, level) \<in> set (layers stack_grown).
                 \<not> (layer_type level = Grow
                    \<and> (\<exists>number dtype. layer level = Some (LayerEnum i number dtype)))) \<longrightarrow>
              shapes_region component_derived i = {}"
    by blast
  have "''L'' \<in> set unetched_layers"
    using u h3 h4 by (intro subsetD [OF u]) auto
  moreover have "shapes_region component_derived 1 = polygons_region component_L_other 1"
    using bspec [OF r2 h3] h4 by simp
  moreover have "shapes_region component_derived 5 = {}"
    using r3 [THEN spec [where x = 5]]
    by (simp add: stack_grown_def level_L1_def LayerLevel_init_def)
  moreover have "map (layer_type \<circ> snd) (layers stack_grown) = [Grow]"
    by (simp add: stack_grown_def level_L1_def LayerLevel_init_def)
  ultimately show ?thesis
    using h1 h3 h4 c r by blast
qed

lemmas builder_defs = get_component_with_derived_layers_def derived_classification_def
  names_of_kind_def dict_getitem_def into_or_empty_def Component_extract_def Region_def
  get_polygons_def defaultdict_getitem_def Let_def

lemmas enum_defs = stack_enum_def stack_grown_def level_L1_def level_E2_def LayerLevel_init_def

text \<open>
  C7 as the claim words it fails: \<open>stack_grown\<close> has no etch-type level, the input has
  the region \<open>{7}\<close> on layer index 5, and the result has nothing there.
\<close>

theorem C7_counterexample:
  "map (layer_type \<circ> snd) (layers stack_grown) = [Grow]
   \<and> get_component_with_derived_layers enum_index component_L_other stack_grown
       = Inr [(1, {1, 2, 3})]
   \<and> shapes_region [(1, {1, 2, 3 :: nat})] 5 = {}
   \<and> polygons_region component_L_other 5 = {7}"
  by (simp add: builder_defs enum_defs component_L_other_def shapes_region_def
      polygons_region_def)

text \<open>
  C1 is what the comments of the code announce ("Remove all etching layers") and not
  what the code does. \<open>L\<close> is etched by \<open>E\<close>, the component has polygons on both, and
  line 453 raises \<open>TypeError\<close>: it subtracts from the list \<open>polygons\<close> itself, where lines
  443--444 turn both operands into a \<open>Region\<close> first. No residual is inserted and no
  component is returned.
\<close>

theorem C1_failing_input:
  "derived_classification stack_enum = Inr ([], [(''L'', [''E''])])
   \<and> boolean_not (Polygons [{1, 2, 3 :: nat}]) (RegionValue {2}) = Inl TypeError
   \<and> get_component_with_derived_layers enum_index component_LE stack_enum = Inl TypeError"
  by (simp add: builder_defs enum_defs component_LE_def)

text \<open>
  C2 holds for the lookups and fails for the builder. Without the polygons of the
  etched layer \<open>L\<close> the snapshot reads as the empty list, and without the polygons of
  the etch layer \<open>E\<close> the step of \<open>E\<close> is skipped; in both cases line 453 then raises
  \<open>TypeError\<close>, as it does for every etched layer.
\<close>

theorem C2_failing_input:
  "fst (defaultdict_getitem (get_polygons component_E) (IndexKey 1)) = []
   \<and> get_component_with_derived_layers enum_index component_E stack_enum = Inl TypeError
   \<and> get_polygons component_L (IndexKey 2) = None
   \<and> get_component_with_derived_layers enum_index component_L stack_enum = Inl TypeError"
  by (simp add: builder_defs enum_defs component_E_def component_L_def)

subsection \<open>Rounding\<close>

text \<open>
  C5 is what the parameter \<open>dbu\<close> is for and not what the code does. With
  \<open>dbu = 0.01\<close> the bounds of the pure grown layer \<open>G\<close> are rounded before they are
  printed (lines 253--256, used at lines 302--303), while the statement of the slab
  (lines 272--273) and the statement of \<open>unetched_L\<close> (lines 327--328) print the bounds as
  they are: \<open>rnd\<close> does not occur in them, whatever Python's \<open>round\<close> and \<open>str\<close> are.
\<close>

theorem C5_failing_input:
  "map_sum id z_statements (script_parts rnd fmt stack_round None (Some (1 / 100))) =
     Inr [z_txt None (LayerTuple 3 0) ''G''
            (fmt (rnd (1 / 8) (rnd_pl fmt (1 / 100))))
            (fmt (rnd (1 / 8 + 1) (rnd_pl fmt (1 / 100)))) ''G: None 3/0'',
          z_txt None (LayerTuple 2 0) ''slab_L_E_0''
            (fmt (1 / 8)) (fmt (1 / 8 + 1 - 2 / 10)) ''slab_L_E_0: None 2/0'']
   \<and> map_sum id unetched_z_statements (script_parts rnd fmt stack_round None (Some (1 / 100))) =
     Inr [z_txt None (LayerTuple 1 0) ''unetched_L''
            (fmt (1 / 8)) (fmt (1 / 8 + 1)) ''unetched_L: None 1/0'']"
  by (simp add: stack_round_def level_G_def example_defs script_run_defs)

end
